theory Spec2Isabelle
  imports Main "HOL-Library.AList"
begin

section \<open>Values\<close>

text \<open>
  Identifiers (Python's \<open>UUID\<close>) and time stamps (\<open>datetime\<close>) are only stored,
  copied and compared, so they are natural numbers here. A \<open>date\<close> is kept as its
  ISO text, which is what \<open>str\<close> of a Python date returns and is all the code reads of it.
  Python's \<open>int\<close> is unbounded: \<open>int\<close>.
\<close>

type_synonym uuid = nat
type_synonym datetime = nat
type_synonym date = string

text \<open>
  A field of a request body: left out of the body, or given (possibly as JSON null, which
  is \<open>None\<close>). \<open>model_dump(exclude_unset=True)\<close> keeps exactly the given fields.
\<close>

datatype 'a field = Unset | Given 'a

text \<open>\<open>newvals.get(key, default)\<close>.\<close>

fun field_get :: "'a field \<Rightarrow> 'a \<Rightarrow> 'a" where
  "field_get Unset d = d"
| "field_get (Given v) d = v"

text \<open>
  The outcomes a handler raises: \<open>HTTPException\<close> with status 404, 409 and 400 (a
  course reference that does not resolve, or an address id that is taken), and pydantic's
  validation failure.
\<close>

datatype error = NotFound | Conflict | BadReference | DuplicateId | Validation

section \<open>Dictionaries\<close>

text \<open>
  A Python \<open>dict\<close> keeps insertion order, so a store is an association list:
  \<open>k in d\<close> is \<open>map_of d k \<noteq> None\<close>, \<open>d[k] = v\<close> is \<open>AList.update k v d\<close>
  (an existing key keeps its place, a new one goes last), \<open>del d[k]\<close> is
  \<open>AList.delete k d\<close>, \<open>d.values()\<close> is \<open>map snd d\<close> and \<open>d.items()\<close> is the list.
\<close>

type_synonym ('k, 'v) dict = "('k \<times> 'v) list"

definition dict_in :: "'k \<Rightarrow> ('k, 'v) dict \<Rightarrow> bool" where
  "dict_in k d = (map_of d k \<noteq> None)"

definition dict_values :: "('k, 'v) dict \<Rightarrow> 'v list" where
  "dict_values d = map snd d"

section \<open>Entity schemas\<close>

subsection \<open>Course (models/course.py)\<close>

record course_base =
  c_code :: string
  c_title :: string
  c_instructor :: string
  c_semester :: string

type_synonym course_create = course_base

record course_update =
  cu_code :: "string option field"
  cu_title :: "string option field"
  cu_instructor :: "string option field"
  cu_semester :: "string option field"

record course_read = course_base +
  c_id :: uuid
  c_created_at :: datetime
  c_updated_at :: datetime

text \<open>
  The keyword arguments of \<open>CourseRead(**stored)\<close> after the merge: a text field may
  have become \<open>None\<close>.
\<close>

record course_dump =
  cd_code :: "string option"
  cd_title :: "string option"
  cd_instructor :: "string option"
  cd_semester :: "string option"
  cd_id :: uuid
  cd_created_at :: datetime
  cd_updated_at :: datetime

text \<open>The four text fields of \<open>CourseBase\<close> are \<open>str\<close>: \<open>None\<close> does not validate.\<close>

definition CourseRead :: "course_dump \<Rightarrow> error + course_read" where
  "CourseRead d =
     (case (cd_code d, cd_title d, cd_instructor d, cd_semester d) of
        (Some code, Some title, Some instructor, Some semester) \<Rightarrow>
          Inr \<lparr>c_code = code, c_title = title, c_instructor = instructor,
               c_semester = semester, c_id = cd_id d,
               c_created_at = cd_created_at d, c_updated_at = cd_updated_at d\<rparr>
      | _ \<Rightarrow> Inl Validation)"

subsection \<open>Assignment (models/assignment.py)\<close>

record assignment_base =
  a_course_id :: uuid
  a_title :: string
  a_due_date :: "date option"
  a_points :: "int option"

type_synonym assignment_create = assignment_base

record assignment_update =
  au_course_id :: "uuid option field"
  au_title :: "string option field"
  au_due_date :: "date option field"
  au_points :: "int option field"

record assignment_read = assignment_base +
  a_id :: uuid
  a_created_at :: datetime
  a_updated_at :: datetime

text \<open>The body of \<open>POST /assignments\<close> before pydantic has read it.\<close>

record assignment_body =
  ab_course_id :: "uuid option field"
  ab_title :: "string option field"
  ab_due_date :: "date option field"
  ab_points :: "int option field"

text \<open>\<open>Field(..., ge=0, le=1000)\<close> on an \<open>Optional[int]\<close>: \<open>None\<close> passes.\<close>

definition points_ok :: "int option \<Rightarrow> bool" where
  "points_ok p = (case p of None \<Rightarrow> True | Some n \<Rightarrow> 0 \<le> n \<and> n \<le> 1000)"

text \<open>
  \<open>AssignmentCreate\<close>: \<open>course_id\<close> and \<open>title\<close> are required and not optional,
  \<open>due_date\<close> defaults to \<open>None\<close>, \<open>points\<close> defaults to 100 and is range checked
  when given.
\<close>

definition AssignmentCreate :: "assignment_body \<Rightarrow> error + assignment_create" where
  "AssignmentCreate b =
     (case (ab_course_id b, ab_title b) of
        (Given (Some course_id), Given (Some title)) \<Rightarrow>
          (let points = field_get (ab_points b) (Some 100) in
           if points_ok points
           then Inr \<lparr>a_course_id = course_id, a_title = title,
                     a_due_date = field_get (ab_due_date b) None, a_points = points\<rparr>
           else Inl Validation)
      | _ \<Rightarrow> Inl Validation)"

text \<open>\<open>AssignmentUpdate\<close>: every field optional, \<open>points\<close> range checked when given.\<close>

definition AssignmentUpdate :: "assignment_update \<Rightarrow> error + assignment_update" where
  "AssignmentUpdate u =
     (if points_ok (field_get (au_points u) None) then Inr u else Inl Validation)"

record assignment_dump =
  ad_course_id :: "uuid option"
  ad_title :: "string option"
  ad_due_date :: "date option"
  ad_points :: "int option"
  ad_id :: uuid
  ad_created_at :: datetime
  ad_updated_at :: datetime

definition AssignmentRead :: "assignment_dump \<Rightarrow> error + assignment_read" where
  "AssignmentRead d =
     (case (ad_course_id d, ad_title d) of
        (Some course_id, Some title) \<Rightarrow>
          (if points_ok (ad_points d)
           then Inr \<lparr>a_course_id = course_id, a_title = title, a_due_date = ad_due_date d,
                     a_points = ad_points d, a_id = ad_id d,
                     a_created_at = ad_created_at d, a_updated_at = ad_updated_at d\<rparr>
           else Inl Validation)
      | _ \<Rightarrow> Inl Validation)"

subsection \<open>Address and Person\<close>

text \<open>
  Modelled from the spec: models/address.py and models/person.py are not among the
  source files. An Address has the five required text fields street, city, state,
  postal_code and country and an id the client supplies; a Person has the optional
  fields uni, first_name, last_name, email, phone and birth_date and an ordered sequence
  of embedded Addresses, with an id the server generates; every Read variant carries id,
  created_at and updated_at; every field of an Update variant is optional.
\<close>

record address_base =
  ad_ident :: uuid
  ad_street :: string
  ad_city :: string
  ad_state :: string
  ad_postal_code :: string
  ad_country :: string

type_synonym address_create = address_base

record address_update =
  adu_street :: "string option field"
  adu_city :: "string option field"
  adu_state :: "string option field"
  adu_postal_code :: "string option field"
  adu_country :: "string option field"

record address_read = address_base +
  ad_created :: datetime
  ad_updated :: datetime

record address_dump =
  add_ident :: uuid
  add_street :: "string option"
  add_city :: "string option"
  add_state :: "string option"
  add_postal_code :: "string option"
  add_country :: "string option"
  add_created :: datetime
  add_updated :: datetime

definition AddressRead :: "address_dump \<Rightarrow> error + address_read" where
  "AddressRead d =
     (case (add_street d, add_city d, add_state d, add_postal_code d, add_country d) of
        (Some street, Some city, Some state, Some postal_code, Some country) \<Rightarrow>
          Inr \<lparr>ad_ident = add_ident d, ad_street = street, ad_city = city, ad_state = state,
               ad_postal_code = postal_code, ad_country = country,
               ad_created = add_created d, ad_updated = add_updated d\<rparr>
      | _ \<Rightarrow> Inl Validation)"

record person_base =
  p_uni :: "string option"
  p_first_name :: "string option"
  p_last_name :: "string option"
  p_email :: "string option"
  p_phone :: "string option"
  p_birth_date :: "date option"
  p_addresses :: "address_base list"

type_synonym person_create = person_base

record person_update =
  pu_uni :: "string option field"
  pu_first_name :: "string option field"
  pu_last_name :: "string option field"
  pu_email :: "string option field"
  pu_phone :: "string option field"
  pu_birth_date :: "date option field"
  pu_addresses :: "address_base list option field"

record person_read = person_base +
  p_id :: uuid
  p_created_at :: datetime
  p_updated_at :: datetime

record person_dump =
  pd_uni :: "string option"
  pd_first_name :: "string option"
  pd_last_name :: "string option"
  pd_email :: "string option"
  pd_phone :: "string option"
  pd_birth_date :: "date option"
  pd_addresses :: "address_base list option"
  pd_id :: uuid
  pd_created_at :: datetime
  pd_updated_at :: datetime

definition PersonRead :: "person_dump \<Rightarrow> error + person_read" where
  "PersonRead d =
     (case pd_addresses d of
        Some addrs \<Rightarrow>
          Inr \<lparr>p_uni = pd_uni d, p_first_name = pd_first_name d, p_last_name = pd_last_name d,
               p_email = pd_email d, p_phone = pd_phone d, p_birth_date = pd_birth_date d,
               p_addresses = addrs, p_id = pd_id d,
               p_created_at = pd_created_at d, p_updated_at = pd_updated_at d\<rparr>
      | None \<Rightarrow> Inl Validation)"

text \<open>\<open>str(p.birth_date)\<close>: the ISO text of the date, or the text of \<open>None\<close>.\<close>

definition str_date :: "date option \<Rightarrow> string" where
  "str_date d = (case d of None \<Rightarrow> ''None'' | Some s \<Rightarrow> s)"

section \<open>The stores (new_main.py)\<close>

record store =
  persons :: "(uuid, person_read) dict"
  addresses :: "(uuid, address_read) dict"
  courses :: "(uuid, course_read) dict"
  assignments :: "(uuid, assignment_read) dict"

definition empty_store :: store where
  "empty_store = \<lparr>persons = [], addresses = [], courses = [], assignments = []\<rparr>"

section \<open>Resource operations (new_main.py)\<close>

text \<open>
  A handler reads and writes the module's four dictionaries; here it takes the store and
  returns the store it leaves, next to what it returns or raises. The clock
  (\<open>datetime.utcnow()\<close>) and the identifier generator (\<open>uuid4()\<close>) are inputs:
  \<open>now\<close> and \<open>new_id\<close>.
\<close>

subsection \<open>Addresses\<close>

definition create_address ::
  "datetime \<Rightarrow> address_create \<Rightarrow> store \<Rightarrow> (error + address_read) \<times> store" where
  "create_address now address st =
     (if dict_in (ad_ident address) (addresses st) then (Inl DuplicateId, st)
      else
        (let r = \<lparr>ad_ident = ad_ident address, ad_street = ad_street address,
                   ad_city = ad_city address, ad_state = ad_state address,
                   ad_postal_code = ad_postal_code address, ad_country = ad_country address,
                   ad_created = now, ad_updated = now\<rparr>
         in (Inr r, st\<lparr>addresses := AList.update (ad_ident address) r (addresses st)\<rparr>)))"

definition update_address ::
  "uuid \<Rightarrow> address_update \<Rightarrow> store \<Rightarrow> (error + address_read) \<times> store" where
  "update_address address_id upd st =
     (case map_of (addresses st) address_id of
        None \<Rightarrow> (Inl NotFound, st)
      | Some stored \<Rightarrow>
          (case AddressRead
                  \<lparr>add_ident = ad_ident stored,
                   add_street = field_get (adu_street upd) (Some (ad_street stored)),
                   add_city = field_get (adu_city upd) (Some (ad_city stored)),
                   add_state = field_get (adu_state upd) (Some (ad_state stored)),
                   add_postal_code = field_get (adu_postal_code upd) (Some (ad_postal_code stored)),
                   add_country = field_get (adu_country upd) (Some (ad_country stored)),
                   add_created = ad_created stored,
                   add_updated = ad_updated stored\<rparr> of
             Inl e \<Rightarrow> (Inl e, st)
           | Inr r \<Rightarrow> (Inr r, st\<lparr>addresses := AList.update address_id r (addresses st)\<rparr>)))"

subsection \<open>Persons\<close>

definition create_person ::
  "datetime \<Rightarrow> uuid \<Rightarrow> person_create \<Rightarrow> store \<Rightarrow> (error + person_read) \<times> store" where
  "create_person now new_id person st =
     (let person_read =
            \<lparr>p_uni = p_uni person, p_first_name = p_first_name person,
             p_last_name = p_last_name person, p_email = p_email person,
             p_phone = p_phone person, p_birth_date = p_birth_date person,
             p_addresses = p_addresses person, p_id = new_id,
             p_created_at = now, p_updated_at = now\<rparr>
      in (Inr person_read, st\<lparr>persons := AList.update new_id person_read (persons st)\<rparr>))"

definition list_persons ::
  "string option \<Rightarrow> string option \<Rightarrow> string option \<Rightarrow> string option \<Rightarrow> string option \<Rightarrow>
   string option \<Rightarrow> string option \<Rightarrow> string option \<Rightarrow> store \<Rightarrow> person_read list" where
  "list_persons uni first_name last_name email phone birth_date city country st =
     (let results = dict_values (persons st);
          results = (case uni of None \<Rightarrow> results
                     | Some v \<Rightarrow> filter (\<lambda>p. p_uni p = Some v) results);
          results = (case first_name of None \<Rightarrow> results
                     | Some v \<Rightarrow> filter (\<lambda>p. p_first_name p = Some v) results);
          results = (case last_name of None \<Rightarrow> results
                     | Some v \<Rightarrow> filter (\<lambda>p. p_last_name p = Some v) results);
          results = (case email of None \<Rightarrow> results
                     | Some v \<Rightarrow> filter (\<lambda>p. p_email p = Some v) results);
          results = (case phone of None \<Rightarrow> results
                     | Some v \<Rightarrow> filter (\<lambda>p. p_phone p = Some v) results);
          results = (case birth_date of None \<Rightarrow> results
                     | Some v \<Rightarrow> filter (\<lambda>p. str_date (p_birth_date p) = v) results);
          results = (case city of None \<Rightarrow> results
                     | Some v \<Rightarrow> filter (\<lambda>p. list_ex (\<lambda>addr. ad_city addr = v) (p_addresses p)) results);
          results = (case country of None \<Rightarrow> results
                     | Some v \<Rightarrow> filter (\<lambda>p. list_ex (\<lambda>addr. ad_country addr = v) (p_addresses p)) results)
      in results)"

definition update_person ::
  "uuid \<Rightarrow> person_update \<Rightarrow> store \<Rightarrow> (error + person_read) \<times> store" where
  "update_person person_id upd st =
     (case map_of (persons st) person_id of
        None \<Rightarrow> (Inl NotFound, st)
      | Some stored \<Rightarrow>
          (case PersonRead
                  \<lparr>pd_uni = field_get (pu_uni upd) (p_uni stored),
                   pd_first_name = field_get (pu_first_name upd) (p_first_name stored),
                   pd_last_name = field_get (pu_last_name upd) (p_last_name stored),
                   pd_email = field_get (pu_email upd) (p_email stored),
                   pd_phone = field_get (pu_phone upd) (p_phone stored),
                   pd_birth_date = field_get (pu_birth_date upd) (p_birth_date stored),
                   pd_addresses = field_get (pu_addresses upd) (Some (p_addresses stored)),
                   pd_id = p_id stored,
                   pd_created_at = p_created_at stored,
                   pd_updated_at = p_updated_at stored\<rparr> of
             Inl e \<Rightarrow> (Inl e, st)
           | Inr r \<Rightarrow> (Inr r, st\<lparr>persons := AList.update person_id r (persons st)\<rparr>)))"

subsection \<open>Courses\<close>

definition create_course ::
  "datetime \<Rightarrow> uuid \<Rightarrow> course_create \<Rightarrow> store \<Rightarrow> (error + course_read) \<times> store" where
  "create_course now new_id course st =
     (if list_ex (\<lambda>c. c_code c = c_code course \<and> c_semester c = c_semester course)
           (dict_values (courses st))
      then (Inl Conflict, st)
      else
        (let r = \<lparr>c_code = c_code course, c_title = c_title course,
                   c_instructor = c_instructor course, c_semester = c_semester course,
                   c_id = new_id, c_created_at = now, c_updated_at = now\<rparr>
         in (Inr r, st\<lparr>courses := AList.update new_id r (courses st)\<rparr>)))"

definition get_course :: "uuid \<Rightarrow> store \<Rightarrow> error + course_read" where
  "get_course course_id st =
     (case map_of (courses st) course_id of None \<Rightarrow> Inl NotFound | Some c \<Rightarrow> Inr c)"

definition update_course ::
  "datetime \<Rightarrow> uuid \<Rightarrow> course_update \<Rightarrow> store \<Rightarrow> (error + course_read) \<times> store" where
  "update_course now course_id upd st =
     (case map_of (courses st) course_id of
        None \<Rightarrow> (Inl NotFound, st)
      | Some stored \<Rightarrow>
          (let new_code = field_get (cu_code upd) (Some (c_code stored));
               new_sem = field_get (cu_semester upd) (Some (c_semester stored))
           in if list_ex (\<lambda>c. c_id c \<noteq> course_id \<and> Some (c_code c) = new_code
                                \<and> Some (c_semester c) = new_sem)
                    (dict_values (courses st))
              then (Inl Conflict, st)
              else
                (case CourseRead
                        \<lparr>cd_code = field_get (cu_code upd) (Some (c_code stored)),
                         cd_title = field_get (cu_title upd) (Some (c_title stored)),
                         cd_instructor = field_get (cu_instructor upd) (Some (c_instructor stored)),
                         cd_semester = field_get (cu_semester upd) (Some (c_semester stored)),
                         cd_id = c_id stored,
                         cd_created_at = c_created_at stored,
                         cd_updated_at = now\<rparr> of
                   Inl e \<Rightarrow> (Inl e, st)
                 | Inr r \<Rightarrow> (Inr r, st\<lparr>courses := AList.update course_id r (courses st)\<rparr>))))"

text \<open>
  The cascade: the identifiers of the assignments of the course are collected first, then
  deleted one by one, then the course is deleted.
\<close>

definition delete_course :: "uuid \<Rightarrow> store \<Rightarrow> (error + unit) \<times> store" where
  "delete_course course_id st =
     (if \<not> dict_in course_id (courses st) then (Inl NotFound, st)
      else
        (let aids = map fst (filter (\<lambda>(aid, a). a_course_id a = course_id) (assignments st));
             st1 = st\<lparr>assignments := foldl (\<lambda>d aid. AList.delete aid d) (assignments st) aids\<rparr>
         in (Inr (), st1\<lparr>courses := AList.delete course_id (courses st1)\<rparr>)))"

subsection \<open>Assignments\<close>

definition create_assignment ::
  "datetime \<Rightarrow> uuid \<Rightarrow> assignment_create \<Rightarrow> store \<Rightarrow> (error + assignment_read) \<times> store" where
  "create_assignment now new_id assignment st =
     (if \<not> dict_in (a_course_id assignment) (courses st) then (Inl BadReference, st)
      else
        (case AssignmentRead
                \<lparr>ad_course_id = Some (a_course_id assignment),
                 ad_title = Some (a_title assignment),
                 ad_due_date = a_due_date assignment,
                 ad_points = a_points assignment,
                 ad_id = new_id, ad_created_at = now, ad_updated_at = now\<rparr> of
           Inl e \<Rightarrow> (Inl e, st)
         | Inr r \<Rightarrow> (Inr r, st\<lparr>assignments := AList.update (a_id r) r (assignments st)\<rparr>)))"

definition get_assignment :: "uuid \<Rightarrow> store \<Rightarrow> error + assignment_read" where
  "get_assignment assignment_id st =
     (case map_of (assignments st) assignment_id of None \<Rightarrow> Inl NotFound | Some a \<Rightarrow> Inr a)"

text \<open>
  \<open>"course_id" in newvals and newvals["course_id"] not in courses\<close>: a given
  \<open>None\<close> is not a key of the dictionary either.
\<close>

definition bad_course_ref :: "uuid option field \<Rightarrow> (uuid, course_read) dict \<Rightarrow> bool" where
  "bad_course_ref f cs =
     (case f of Unset \<Rightarrow> False
      | Given None \<Rightarrow> True
      | Given (Some course_id) \<Rightarrow> \<not> dict_in course_id cs)"

definition update_assignment ::
  "datetime \<Rightarrow> uuid \<Rightarrow> assignment_update \<Rightarrow> store \<Rightarrow> (error + assignment_read) \<times> store" where
  "update_assignment now assignment_id upd st =
     (case map_of (assignments st) assignment_id of
        None \<Rightarrow> (Inl NotFound, st)
      | Some stored \<Rightarrow>
          (if bad_course_ref (au_course_id upd) (courses st) then (Inl BadReference, st)
           else
             (case AssignmentRead
                     \<lparr>ad_course_id = field_get (au_course_id upd) (Some (a_course_id stored)),
                      ad_title = field_get (au_title upd) (Some (a_title stored)),
                      ad_due_date = field_get (au_due_date upd) (a_due_date stored),
                      ad_points = field_get (au_points upd) (a_points stored),
                      ad_id = a_id stored,
                      ad_created_at = a_created_at stored,
                      ad_updated_at = now\<rparr> of
                Inl e \<Rightarrow> (Inl e, st)
              | Inr r \<Rightarrow>
                  (Inr r, st\<lparr>assignments := AList.update assignment_id r (assignments st)\<rparr>))))"

definition delete_assignment :: "uuid \<Rightarrow> store \<Rightarrow> (error + unit) \<times> store" where
  "delete_assignment assignment_id st =
     (if \<not> dict_in assignment_id (assignments st) then (Inl NotFound, st)
      else (Inr (), st\<lparr>assignments := AList.delete assignment_id (assignments st)\<rparr>))"

text \<open>
  The two routes that take an assignment body: the framework builds the pydantic model
  from the body and calls the handler only when that validates.
\<close>

definition post_assignments ::
  "datetime \<Rightarrow> uuid \<Rightarrow> assignment_body \<Rightarrow> store \<Rightarrow> (error + assignment_read) \<times> store" where
  "post_assignments now new_id body st =
     (case AssignmentCreate body of
        Inl e \<Rightarrow> (Inl e, st)
      | Inr assignment \<Rightarrow> create_assignment now new_id assignment st)"

definition patch_assignment ::
  "datetime \<Rightarrow> uuid \<Rightarrow> assignment_update \<Rightarrow> store \<Rightarrow> (error + assignment_read) \<times> store" where
  "patch_assignment now assignment_id body st =
     (case AssignmentUpdate body of
        Inl e \<Rightarrow> (Inl e, st)
      | Inr upd \<Rightarrow> update_assignment now assignment_id upd st)"

section \<open>Requests and runs\<close>

text \<open>
  One mutating call of the service with what it reads from its environment, and the
  calls of a run in order. An assignment call carries the body as it arrives.
\<close>

datatype request =
    CreateAddress datetime address_create
  | UpdateAddress uuid address_update
  | CreatePerson datetime uuid person_create
  | UpdatePerson uuid person_update
  | CreateCourse datetime uuid course_create
  | UpdateCourse datetime uuid course_update
  | DeleteCourse uuid
  | CreateAssignment datetime uuid assignment_body
  | UpdateAssignment datetime uuid assignment_update
  | DeleteAssignment uuid

datatype response =
    AddressOut address_read
  | PersonOut person_read
  | CourseOut course_read
  | AssignmentOut assignment_read
  | NoContent

definition reply :: "('a \<Rightarrow> response) \<Rightarrow> (error + 'a) \<times> store \<Rightarrow> (error + response) \<times> store" where
  "reply f out = (case fst out of Inl e \<Rightarrow> Inl e | Inr r \<Rightarrow> Inr (f r), snd out)"

fun handle :: "request \<Rightarrow> store \<Rightarrow> (error + response) \<times> store" where
  "handle (CreateAddress now address) st = reply AddressOut (create_address now address st)"
| "handle (UpdateAddress address_id upd) st = reply AddressOut (update_address address_id upd st)"
| "handle (CreatePerson now new_id person) st = reply PersonOut (create_person now new_id person st)"
| "handle (UpdatePerson person_id upd) st = reply PersonOut (update_person person_id upd st)"
| "handle (CreateCourse now new_id course) st = reply CourseOut (create_course now new_id course st)"
| "handle (UpdateCourse now course_id upd) st = reply CourseOut (update_course now course_id upd st)"
| "handle (DeleteCourse course_id) st = reply (\<lambda>_. NoContent) (delete_course course_id st)"
| "handle (CreateAssignment now new_id body) st =
     reply AssignmentOut (post_assignments now new_id body st)"
| "handle (UpdateAssignment now assignment_id body) st =
     reply AssignmentOut (patch_assignment now assignment_id body st)"
| "handle (DeleteAssignment assignment_id) st =
     reply (\<lambda>_. NoContent) (delete_assignment assignment_id st)"

fun run :: "request list \<Rightarrow> store \<Rightarrow> store" where
  "run [] st = st"
| "run (r # rs) st = run rs (snd (handle r st))"

section \<open>Properties of a store\<close>

text \<open>Every stored assignment names a key of the course dictionary.\<close>

definition refs_ok :: "store \<Rightarrow> bool" where
  "refs_ok st = list_all (\<lambda>a. dict_in (a_course_id a) (courses st)) (dict_values (assignments st))"

text \<open>Every course is stored under its own id.\<close>

definition course_keys_ok :: "store \<Rightarrow> bool" where
  "course_keys_ok st = list_all (\<lambda>(k, c). c_id c = k) (courses st)"

text \<open>
  The filter of \<open>list_persons\<close> as the specification words it: every supplied equality
  filter holds, and for city and country some embedded address has the value.
\<close>

definition eq_filter :: "string option \<Rightarrow> string option \<Rightarrow> bool" where
  "eq_filter flt v = (case flt of None \<Rightarrow> True | Some x \<Rightarrow> v = Some x)"

definition person_matches ::
  "string option \<Rightarrow> string option \<Rightarrow> string option \<Rightarrow> string option \<Rightarrow> string option \<Rightarrow>
   string option \<Rightarrow> string option \<Rightarrow> string option \<Rightarrow> person_read \<Rightarrow> bool" where
  "person_matches uni first_name last_name email phone birth_date city country p =
     (eq_filter uni (p_uni p) \<and> eq_filter first_name (p_first_name p)
      \<and> eq_filter last_name (p_last_name p) \<and> eq_filter email (p_email p)
      \<and> eq_filter phone (p_phone p)
      \<and> eq_filter birth_date (p_birth_date p)
      \<and> (case city of None \<Rightarrow> True
          | Some v \<Rightarrow> \<exists>addr \<in> set (p_addresses p). ad_city addr = v)
      \<and> (case country of None \<Rightarrow> True
          | Some v \<Rightarrow> \<exists>addr \<in> set (p_addresses p). ad_country addr = v))"

text \<open>
  Partial update, as the specification words it, for one field: a field the payload leaves
  out keeps the stored value, a field the payload gives takes the payload's value. The
  first is for a field the record holds as a plain value, the second for one it holds as
  an optional value.
\<close>

definition merged :: "'a option field \<Rightarrow> 'a \<Rightarrow> 'a \<Rightarrow> bool" where
  "merged f old new = (case f of Unset \<Rightarrow> new = old | Given v \<Rightarrow> v = Some new)"

definition merged_opt :: "'a option field \<Rightarrow> 'a option \<Rightarrow> 'a option \<Rightarrow> bool" where
  "merged_opt f old new = (case f of Unset \<Rightarrow> new = old | Given v \<Rightarrow> new = v)"

section \<open>A worked run\<close>

text \<open>
  The scenario of the specification: a course is created and gets id 1, an assignment of
  it is created without points and gets id 10.
\<close>

definition course_x :: course_create where
  "course_x = \<lparr>c_code = ''X'', c_title = ''Cloud'', c_instructor = ''F'', c_semester = ''F25''\<rparr>"

definition hw1_body :: assignment_body where
  "hw1_body = \<lparr>ab_course_id = Given (Some 1), ab_title = Given (Some ''HW1''),
                ab_due_date = Unset, ab_points = Unset\<rparr>"

definition course_x_read :: course_read where
  "course_x_read = \<lparr>c_code = ''X'', c_title = ''Cloud'', c_instructor = ''F'',
      c_semester = ''F25'', c_id = 1, c_created_at = 5, c_updated_at = 5\<rparr>"

definition hw1_read :: assignment_read where
  "hw1_read = \<lparr>a_course_id = 1, a_title = ''HW1'', a_due_date = None, a_points = Some 100,
      a_id = 10, a_created_at = 6, a_updated_at = 6\<rparr>"

definition store1 :: store where
  "store1 = \<lparr>persons = [], addresses = [], courses = [(1, course_x_read)],
      assignments = [(10, hw1_read)]\<rparr>"

definition course_y_read :: course_read where
  "course_y_read = \<lparr>c_code = ''Y'', c_title = ''Databases'', c_instructor = ''G'',
      c_semester = ''F25'', c_id = 2, c_created_at = 7, c_updated_at = 7\<rparr>"

text \<open>
  A store with a second course, an address and two persons, and partial updates that
  each give one field.
\<close>

definition home_nyc :: address_base where
  "home_nyc = \<lparr>ad_ident = 3, ad_street = ''1 Main St'', ad_city = ''NYC'', ad_state = ''NY'',
      ad_postal_code = ''10027'', ad_country = ''USA''\<rparr>"

definition home_la :: address_base where
  "home_la = \<lparr>ad_ident = 8, ad_street = ''2 Hill Rd'', ad_city = ''LA'', ad_state = ''CA'',
      ad_postal_code = ''90001'', ad_country = ''USA''\<rparr>"

definition address_nyc :: address_read where
  "address_nyc = \<lparr>ad_ident = 3, ad_street = ''1 Main St'', ad_city = ''NYC'', ad_state = ''NY'',
      ad_postal_code = ''10027'', ad_country = ''USA'', ad_created = 4, ad_updated = 4\<rparr>"

definition ann :: person_read where
  "ann = \<lparr>p_uni = Some ''ab1234'', p_first_name = Some ''Ann'', p_last_name = Some ''Bee'',
      p_email = None, p_phone = None, p_birth_date = Some ''2000-01-31'',
      p_addresses = [home_nyc], p_id = 4, p_created_at = 4, p_updated_at = 4\<rparr>"

definition bob :: person_read where
  "bob = \<lparr>p_uni = Some ''cd5678'', p_first_name = Some ''Bob'', p_last_name = Some ''Dee'',
      p_email = None, p_phone = None, p_birth_date = None,
      p_addresses = [home_la], p_id = 5, p_created_at = 4, p_updated_at = 4\<rparr>"

definition store2 :: store where
  "store2 = \<lparr>persons = [(4, ann), (5, bob)], addresses = [(3, address_nyc)],
      courses = [(1, course_x_read), (2, course_y_read)],
      assignments = [(10, hw1_read)]\<rparr>"

definition rename_to_x :: course_update where
  "rename_to_x = \<lparr>cu_code = Given (Some ''X''), cu_title = Unset, cu_instructor = Unset,
      cu_semester = Unset\<rparr>"

definition retitle :: course_update where
  "retitle = \<lparr>cu_code = Unset, cu_title = Given (Some ''Data''), cu_instructor = Unset,
      cu_semester = Unset\<rparr>"

definition regrade :: assignment_update where
  "regrade = \<lparr>au_course_id = Unset, au_title = Unset, au_due_date = Unset,
      au_points = Given (Some 50)\<rparr>"

definition move_course :: assignment_update where
  "move_course = \<lparr>au_course_id = Given (Some 99), au_title = Unset, au_due_date = Unset,
      au_points = Unset\<rparr>"

definition overgrade :: assignment_update where
  "overgrade = \<lparr>au_course_id = Unset, au_title = Unset, au_due_date = Unset,
      au_points = Given (Some 1001)\<rparr>"

definition move_to_la :: address_update where
  "move_to_la = \<lparr>adu_street = Unset, adu_city = Given (Some ''LA''), adu_state = Unset,
      adu_postal_code = Unset, adu_country = Unset\<rparr>"

definition rename_ann :: person_update where
  "rename_ann = \<lparr>pu_uni = Unset, pu_first_name = Given (Some ''Anna''), pu_last_name = Unset,
      pu_email = Unset, pu_phone = Unset, pu_birth_date = Unset, pu_addresses = Unset\<rparr>"

definition hw2 :: assignment_create where
  "hw2 = \<lparr>a_course_id = 99, a_title = ''HW2'', a_due_date = None, a_points = Some 10\<rparr>"

definition hw3_body :: assignment_body where
  "hw3_body = \<lparr>ab_course_id = Given (Some 1), ab_title = Given (Some ''HW3''),
                ab_due_date = Unset, ab_points = Given (Some (- 1))\<rparr>"

text \<open>
  The same store with an assignment of the second course as well, and with the persons
  and the address.
\<close>

definition lab_read :: assignment_read where
  "lab_read = \<lparr>a_course_id = 2, a_title = ''Lab'', a_due_date = None, a_points = Some 20,
      a_id = 12, a_created_at = 8, a_updated_at = 8\<rparr>"

definition store3 :: store where
  "store3 = \<lparr>persons = [(4, ann), (5, bob)], addresses = [(3, address_nyc)],
      courses = [(1, course_x_read), (2, course_y_read)],
      assignments = [(10, hw1_read), (12, lab_read)]\<rparr>"

section \<open>Association lists\<close>

lemma set_update_subset: "set (AList.update k v al) \<subseteq> insert (k, v) (set al)"
  by (induction al) auto

lemma update_mem: "(k, v) \<in> set (AList.update k v al)"
  by (induction al) auto

lemma set_delete: "set (AList.delete k al) = {p \<in> set al. fst p \<noteq> k}"
  by (auto simp: AList.delete_eq)

lemma set_delete_all:
  "set (foldl (\<lambda>d aid. AList.delete aid d) al ks) = {p \<in> set al. fst p \<notin> set ks}"
  by (induction ks arbitrary: al) (auto simp: set_delete)

lemma map_of_delete_all:
  "map_of (foldl (\<lambda>d aid. AList.delete aid d) al ks) k =
     (if k \<in> set ks then None else map_of al k)"
  by (induction ks arbitrary: al) (auto simp: AList.delete_conv')

section \<open>The worked run is a run\<close>

lemma store1_run:
  "run [CreateCourse 5 1 course_x, CreateAssignment 6 10 hw1_body] empty_store = store1"
  by (simp add: reply_def create_course_def post_assignments_def create_assignment_def
      AssignmentCreate_def AssignmentRead_def points_ok_def dict_in_def dict_values_def
      empty_store_def store1_def course_x_def hw1_body_def course_x_read_def hw1_read_def
      Let_def)

section \<open>Cascading delete\<close>

lemma delete_all_filter:
  "foldl (\<lambda>d aid. AList.delete aid d) al ks = filter (\<lambda>p. fst p \<notin> set ks) al"
proof (induction ks arbitrary: al)
  case Nil
  show ?case by simp
next
  case (Cons k ks)
  have "AList.delete k al = filter (\<lambda>p. fst p \<noteq> k) al"
    by (simp add: AList.delete_eq case_prod_unfold eq_commute)
  with Cons show ?case
    by (auto intro: filter_cong)
qed

lemma collected_iff:
  "aid \<in> set (map fst (filter (\<lambda>(aid, a). a_course_id a = cid) al))
     \<longleftrightarrow> (\<exists>a. (aid, a) \<in> set al \<and> a_course_id a = cid)"
  by force

lemma cascade_filter:
  fixes al :: "(uuid, assignment_read) dict"
  shows "foldl (\<lambda>d aid. AList.delete aid d) al
       (map fst (filter (\<lambda>(aid, a). a_course_id a = cid) al))
     = filter (\<lambda>(aid, a). \<forall>(aid', a') \<in> set al. aid' = aid \<longrightarrow> a_course_id a' \<noteq> cid) al"
proof -
  have "(fst p \<notin> set (map fst (filter (\<lambda>(aid, a). a_course_id a = cid) al)))
      = (case p of (aid, a) \<Rightarrow> \<forall>(aid', a') \<in> set al. aid' = aid \<longrightarrow> a_course_id a' \<noteq> cid)"
    for p :: "uuid \<times> assignment_read"
  proof (cases p)
    case (Pair aid a)
    show ?thesis unfolding Pair fst_conv split_conv collected_iff by fast
  qed
  then show ?thesis unfolding delete_all_filter by (intro filter_cong refl)
qed

lemma cascade_filter_distinct:
  fixes al :: "(uuid, assignment_read) dict"
  assumes "distinct (map fst al)"
  shows "foldl (\<lambda>d aid. AList.delete aid d) al
       (map fst (filter (\<lambda>(aid, a). a_course_id a = cid) al))
     = filter (\<lambda>(aid, a). a_course_id a \<noteq> cid) al"
  unfolding cascade_filter
proof (rule filter_cong [OF refl])
  fix p assume p: "p \<in> set al"
  obtain aid a where pa: "p = (aid, a)" by (cases p)
  have same: "a' = a" if "(aid, a') \<in> set al" for a'
  proof -
    from assms that have "map_of al aid = Some a'" by (rule map_of_is_SomeI)
    moreover from assms p have "map_of al aid = Some a"
      unfolding pa by (rule map_of_is_SomeI)
    ultimately show ?thesis by simp
  qed
  have "(\<forall>(aid', a') \<in> set al. aid' = aid \<longrightarrow> a_course_id a' \<noteq> cid) = (a_course_id a \<noteq> cid)"
  proof
    assume "\<forall>(aid', a') \<in> set al. aid' = aid \<longrightarrow> a_course_id a' \<noteq> cid"
    with p pa show "a_course_id a \<noteq> cid" by fast
  next
    assume "a_course_id a \<noteq> cid"
    with same show "\<forall>(aid', a') \<in> set al. aid' = aid \<longrightarrow> a_course_id a' \<noteq> cid" by fast
  qed
  then show "(case p of (aid, a) \<Rightarrow> \<forall>(aid', a') \<in> set al. aid' = aid \<longrightarrow> a_course_id a' \<noteq> cid)
      = (case p of (aid, a) \<Rightarrow> a_course_id a \<noteq> cid)"
    unfolding pa split_conv .
qed

text \<open>
  C1. Deleting a course whose id is in the course store succeeds. Afterwards a get of the
  course id is NotFound, a get of the id of any assignment that was stored with that
  course_id is NotFound, and no assignment left in the store has that course_id. Nothing
  else goes: the course store is the old one without the entries under that id, in order;
  the assignment store is the old one without the entries whose id was stored with that
  course_id, in order (with distinct ids: without the assignments of that course); every
  other course and every other assignment is got as before; persons and addresses are as
  they were.
\<close>

theorem delete_course_cascade:
  assumes "dict_in course_id (courses st)"
  shows "fst (delete_course course_id st) = Inr ()
    \<and> get_course course_id (snd (delete_course course_id st)) = Inl NotFound
    \<and> (\<forall>(aid, a) \<in> set (assignments st). a_course_id a = course_id \<longrightarrow>
          get_assignment aid (snd (delete_course course_id st)) = Inl NotFound)
    \<and> (\<forall>a \<in> set (dict_values (assignments (snd (delete_course course_id st)))).
          a_course_id a \<noteq> course_id)
    \<and> courses (snd (delete_course course_id st))
        = filter (\<lambda>(k, c). k \<noteq> course_id) (courses st)
    \<and> assignments (snd (delete_course course_id st))
        = filter (\<lambda>(aid, a). \<forall>(aid', a') \<in> set (assignments st).
                     aid' = aid \<longrightarrow> a_course_id a' \<noteq> course_id)
            (assignments st)
    \<and> (distinct (map fst (assignments st)) \<longrightarrow>
          assignments (snd (delete_course course_id st))
            = filter (\<lambda>(aid, a). a_course_id a \<noteq> course_id) (assignments st))
    \<and> (\<forall>k. k \<noteq> course_id \<longrightarrow>
          get_course k (snd (delete_course course_id st)) = get_course k st)
    \<and> (\<forall>aid. (\<forall>a. (aid, a) \<in> set (assignments st) \<longrightarrow> a_course_id a \<noteq> course_id) \<longrightarrow>
          get_assignment aid (snd (delete_course course_id st)) = get_assignment aid st)
    \<and> persons (snd (delete_course course_id st)) = persons st
    \<and> addresses (snd (delete_course course_id st)) = addresses st"
proof -
  let ?aids = "map fst (filter (\<lambda>(aid, a). a_course_id a = course_id) (assignments st))"
  let ?as = "foldl (\<lambda>d aid. AList.delete aid d) (assignments st) ?aids"
  let ?st' = "snd (delete_course course_id st)"
  have st': "?st' = st\<lparr>assignments := ?as, courses := AList.delete course_id (courses st)\<rparr>"
    and ok: "fst (delete_course course_id st) = Inr ()"
    using assms by (simp_all add: delete_course_def Let_def)
  have as': "assignments ?st' = ?as" and cs': "courses ?st' = AList.delete course_id (courses st)"
    and frame: "persons ?st' = persons st" "addresses ?st' = addresses st"
    by (simp_all add: st')
  have gone: "get_course course_id ?st' = Inl NotFound"
    by (simp add: get_course_def cs' AList.delete_conv')
  have cascade: "get_assignment aid ?st' = Inl NotFound"
    if "(aid, a) \<in> set (assignments st)" "a_course_id a = course_id" for aid a
  proof -
    from that have "aid \<in> set ?aids" unfolding collected_iff by fast
    then show ?thesis by (simp add: get_assignment_def as' map_of_delete_all)
  qed
  have as: "assignments ?st'
      = filter (\<lambda>(aid, a). \<forall>(aid', a') \<in> set (assignments st).
                   aid' = aid \<longrightarrow> a_course_id a' \<noteq> course_id) (assignments st)"
    unfolding as' by (rule cascade_filter)
  have rest: "a_course_id a \<noteq> course_id" if "a \<in> set (dict_values (assignments ?st'))" for a
  proof -
    from that obtain aid where "(aid, a) \<in> set (assignments ?st')"
      by (auto simp: dict_values_def)
    then have "(aid, a) \<in> set (assignments st)" "aid \<notin> set ?aids"
      unfolding as' set_delete_all by simp_all
    then show ?thesis unfolding collected_iff by fast
  qed
  have cs: "courses ?st' = filter (\<lambda>(k, c). k \<noteq> course_id) (courses st)"
    unfolding cs' by (simp add: AList.delete_eq case_prod_unfold eq_commute)
  have as_distinct: "assignments ?st'
      = filter (\<lambda>(aid, a). a_course_id a \<noteq> course_id) (assignments st)"
    if "distinct (map fst (assignments st))"
    unfolding as' using that by (rule cascade_filter_distinct)
  have other_courses: "get_course k ?st' = get_course k st" if "k \<noteq> course_id" for k
    using that by (simp add: get_course_def cs')
  have other_assignments: "get_assignment aid ?st' = get_assignment aid st"
    if "\<forall>a. (aid, a) \<in> set (assignments st) \<longrightarrow> a_course_id a \<noteq> course_id" for aid
  proof -
    from that have "aid \<notin> set ?aids" unfolding collected_iff by fast
    then show ?thesis by (simp add: get_assignment_def as' map_of_delete_all)
  qed
  show ?thesis
  proof (intro conjI)
    show "fst (delete_course course_id st) = Inr ()" by (rule ok)
    show "get_course course_id ?st' = Inl NotFound" by (rule gone)
    show "\<forall>(aid, a) \<in> set (assignments st). a_course_id a = course_id \<longrightarrow>
        get_assignment aid ?st' = Inl NotFound"
      using cascade by fast
    show "\<forall>a \<in> set (dict_values (assignments ?st')). a_course_id a \<noteq> course_id"
      using rest by fast
    show "courses ?st' = filter (\<lambda>(k, c). k \<noteq> course_id) (courses st)" by (rule cs)
    show "assignments ?st'
        = filter (\<lambda>(aid, a). \<forall>(aid', a') \<in> set (assignments st).
                     aid' = aid \<longrightarrow> a_course_id a' \<noteq> course_id) (assignments st)"
      by (rule as)
    show "distinct (map fst (assignments st)) \<longrightarrow>
        assignments ?st' = filter (\<lambda>(aid, a). a_course_id a \<noteq> course_id) (assignments st)"
      using as_distinct by (rule impI)
    show "\<forall>k. k \<noteq> course_id \<longrightarrow> get_course k ?st' = get_course k st"
      using other_courses by fast
    show "\<forall>aid. (\<forall>a. (aid, a) \<in> set (assignments st) \<longrightarrow> a_course_id a \<noteq> course_id) \<longrightarrow>
        get_assignment aid ?st' = get_assignment aid st"
      using other_assignments by fast
    show "persons ?st' = persons st" by (rule frame)
    show "addresses ?st' = addresses st" by (rule frame)
  qed
qed

theorem delete_course_cascade_witness:
  "dict_in 1 (courses store3) \<and> (10, hw1_read) \<in> set (assignments store3)
   \<and> a_course_id hw1_read = 1 \<and> distinct (map fst (assignments store3))
   \<and> fst (delete_course 1 store3) = Inr ()
   \<and> get_course 1 (snd (delete_course 1 store3)) = Inl NotFound
   \<and> get_assignment 10 (snd (delete_course 1 store3)) = Inl NotFound
   \<and> courses (snd (delete_course 1 store3)) = [(2, course_y_read)]
   \<and> assignments (snd (delete_course 1 store3)) = [(12, lab_read)]
   \<and> get_course 2 (snd (delete_course 1 store3)) = Inr course_y_read
   \<and> get_assignment 12 (snd (delete_course 1 store3)) = Inr lab_read
   \<and> persons (snd (delete_course 1 store3)) = [(4, ann), (5, bob)]
   \<and> addresses (snd (delete_course 1 store3)) = [(3, address_nyc)]"
proof -
  let ?st' = "snd (delete_course 1 store3)"
  have present: "dict_in 1 (courses store3)"
    by (simp add: dict_in_def store3_def)
  have stored: "(10, hw1_read) \<in> set (assignments store3)" "a_course_id hw1_read = 1"
    and keys: "distinct (map fst (assignments store3))"
    by (simp_all add: store3_def hw1_read_def)
  have kept: "filter (\<lambda>(k, c). k \<noteq> (1::nat)) (courses store3) = [(2, course_y_read)]"
    "filter (\<lambda>(aid, a). a_course_id a \<noteq> 1) (assignments store3) = [(12, lab_read)]"
    by (simp_all add: store3_def hw1_read_def lab_read_def)
  have before: "get_course 2 store3 = Inr course_y_read" "get_assignment 12 store3 = Inr lab_read"
    "persons store3 = [(4, ann), (5, bob)]" "addresses store3 = [(3, address_nyc)]"
    by (simp_all add: store3_def get_course_def get_assignment_def)
  have others: "\<forall>a. (12, a) \<in> set (assignments store3) \<longrightarrow> a_course_id a \<noteq> 1"
    by (simp add: store3_def lab_read_def)
  note t = delete_course_cascade [OF present]
  note ok = t [THEN conjunct1]
  note gone = t [THEN conjunct2, THEN conjunct1]
  note cascade = t [THEN conjunct2, THEN conjunct2, THEN conjunct1]
  note cs = t [THEN conjunct2, THEN conjunct2, THEN conjunct2, THEN conjunct2, THEN conjunct1]
  note asd = t [THEN conjunct2, THEN conjunct2, THEN conjunct2, THEN conjunct2, THEN conjunct2,
      THEN conjunct2, THEN conjunct1, rule_format, OF keys]
  note oc = t [THEN conjunct2, THEN conjunct2, THEN conjunct2, THEN conjunct2, THEN conjunct2,
      THEN conjunct2, THEN conjunct2, THEN conjunct1, rule_format, of 2]
  note oa = t [THEN conjunct2, THEN conjunct2, THEN conjunct2, THEN conjunct2, THEN conjunct2,
      THEN conjunct2, THEN conjunct2, THEN conjunct2, THEN conjunct1, rule_format, of 12]
  note fr = t [THEN conjunct2, THEN conjunct2, THEN conjunct2, THEN conjunct2, THEN conjunct2,
      THEN conjunct2, THEN conjunct2, THEN conjunct2, THEN conjunct2]
  from cascade stored have a10: "get_assignment 10 ?st' = Inl NotFound" by fast
  from oc have c2: "get_course 2 ?st' = Inr course_y_read" by (simp add: before)
  from oa others have a12: "get_assignment 12 ?st' = Inr lab_read" by (simp add: before)
  from present stored keys ok gone a10 cs asd c2 a12 fr kept before
  show ?thesis by simp
qed

section \<open>Course uniqueness\<close>

text \<open>
  C3. Creating a course whose (code, semester) pair is that of a stored course raises
  Conflict and leaves the store as it was; and of two creates in a row with the same
  (code, semester), the second raises Conflict, whatever the first did.
\<close>

theorem create_course_conflict:
  "((\<exists>c \<in> set (dict_values (courses st)).
        c_code c = c_code course \<and> c_semester c = c_semester course)
      \<longrightarrow> create_course now new_id course st = (Inl Conflict, st))
   \<and> (c_code other = c_code course \<and> c_semester other = c_semester course
      \<longrightarrow> fst (create_course later next_id other (snd (create_course now new_id course st)))
            = Inl Conflict)"
proof (intro conjI impI)
  assume "\<exists>c \<in> set (dict_values (courses st)).
      c_code c = c_code course \<and> c_semester c = c_semester course"
  then show "create_course now new_id course st = (Inl Conflict, st)"
    by (simp add: create_course_def list_ex_iff)
next
  assume same: "c_code other = c_code course \<and> c_semester other = c_semester course"
  let ?taken = "list_ex (\<lambda>c. c_code c = c_code course \<and> c_semester c = c_semester course)
      (dict_values (courses st))"
  show "fst (create_course later next_id other (snd (create_course now new_id course st)))
      = Inl Conflict"
  proof (cases ?taken)
    case True
    then show ?thesis using same by (simp add: create_course_def)
  next
    case False
    let ?r = "\<lparr>c_code = c_code course, c_title = c_title course,
        c_instructor = c_instructor course, c_semester = c_semester course,
        c_id = new_id, c_created_at = now, c_updated_at = now\<rparr>"
    from False have st': "snd (create_course now new_id course st)
        = st\<lparr>courses := AList.update new_id ?r (courses st)\<rparr>"
      by (simp add: create_course_def Let_def)
    have "?r \<in> set (dict_values (AList.update new_id ?r (courses st)))"
      unfolding dict_values_def using update_mem [of new_id ?r "courses st"] by force
    moreover have "c_code ?r = c_code other \<and> c_semester ?r = c_semester other"
      using same by simp
    ultimately have "\<exists>c \<in> set (dict_values (AList.update new_id ?r (courses st))).
        c_code c = c_code other \<and> c_semester c = c_semester other"
      by (rule bexI [rotated])
    then have "list_ex (\<lambda>c. c_code c = c_code other \<and> c_semester c = c_semester other)
        (dict_values (courses (snd (create_course now new_id course st))))"
      unfolding list_ex_iff st' by simp
    then show ?thesis by (simp add: create_course_def)
  qed
qed

theorem create_course_conflict_witness:
  "(\<exists>c \<in> set (dict_values (courses store1)).
      c_code c = c_code course_x \<and> c_semester c = c_semester course_x)
   \<and> create_course 8 3 course_x store1 = (Inl Conflict, store1)
   \<and> fst (create_course 8 3 course_x (snd (create_course 5 1 course_x empty_store)))
       = Inl Conflict"
proof -
  have taken: "\<exists>c \<in> set (dict_values (courses store1)).
      c_code c = c_code course_x \<and> c_semester c = c_semester course_x"
    by (simp add: store1_def dict_values_def course_x_read_def course_x_def)
  from taken
    create_course_conflict [where st = store1 and course = course_x and now = 8 and new_id = 3]
    create_course_conflict [where st = empty_store and course = course_x and now = 5
      and new_id = 1 and other = course_x and later = 8 and next_id = 3]
  show ?thesis by blast
qed

text \<open>
  C5. Updating a stored course raises Conflict exactly when a stored course with another id
  has the code and semester the record would have after the merge (the payload's value
  where the payload gives one, the stored value otherwise).
\<close>

theorem update_course_conflict_iff:
  assumes "map_of (courses st) course_id = Some stored"
  shows "fst (update_course now course_id upd st) = Inl Conflict \<longleftrightarrow>
     (\<exists>c \<in> set (dict_values (courses st)). c_id c \<noteq> course_id
        \<and> Some (c_code c) = field_get (cu_code upd) (Some (c_code stored))
        \<and> Some (c_semester c) = field_get (cu_semester upd) (Some (c_semester stored)))"
  using assms
  by (auto simp: update_course_def Let_def list_ex_iff CourseRead_def
      split: option.splits sum.splits)

theorem update_course_conflict_iff_witness:
  "map_of (courses store2) 2 = Some course_y_read
   \<and> fst (update_course 9 2 rename_to_x store2) = Inl Conflict
   \<and> map_of (courses store2) 1 = Some course_x_read
   \<and> fst (update_course 9 1 rename_to_x store2) \<noteq> Inl Conflict"
proof -
  have y: "map_of (courses store2) 2 = Some course_y_read"
    and x: "map_of (courses store2) 1 = Some course_x_read"
    by (simp_all add: store2_def)
  have other: "\<exists>c \<in> set (dict_values (courses store2)). c_id c \<noteq> 2
        \<and> Some (c_code c) = field_get (cu_code rename_to_x) (Some (c_code course_y_read))
        \<and> Some (c_semester c) = field_get (cu_semester rename_to_x) (Some (c_semester course_y_read))"
    by (simp add: store2_def dict_values_def rename_to_x_def course_x_read_def course_y_read_def)
  have none: "\<not> (\<exists>c \<in> set (dict_values (courses store2)). c_id c \<noteq> 1
        \<and> Some (c_code c) = field_get (cu_code rename_to_x) (Some (c_code course_x_read))
        \<and> Some (c_semester c) = field_get (cu_semester rename_to_x) (Some (c_semester course_x_read)))"
    by (simp add: store2_def dict_values_def rename_to_x_def course_x_read_def course_y_read_def)
  from update_course_conflict_iff [OF y, of 9 rename_to_x]
    update_course_conflict_iff [OF x, of 9 rename_to_x] other none x y
  show ?thesis by blast
qed

section \<open>Partial updates\<close>

lemma map_of_update_same: "map_of (AList.update k v al) k = Some v"
  by (simp add: AList.update_conv')

lemma merged_field_get: "field_get f (Some old) = Some new \<Longrightarrow> merged f old new"
  by (cases f) (simp_all add: merged_def)

lemma merged_opt_field_get: "field_get f old = new \<Longrightarrow> merged_opt f old new"
  by (cases f) (simp_all add: merged_opt_def)

lemma CourseRead_Inr:
  assumes "CourseRead d = Inr r"
  shows "cd_code d = Some (c_code r)" "cd_title d = Some (c_title r)"
    "cd_instructor d = Some (c_instructor r)" "cd_semester d = Some (c_semester r)"
    "c_id r = cd_id d" "c_created_at r = cd_created_at d" "c_updated_at r = cd_updated_at d"
  using assms by (auto simp: CourseRead_def split: option.splits)

lemma AssignmentRead_Inr:
  assumes "AssignmentRead d = Inr r"
  shows "ad_course_id d = Some (a_course_id r)" "ad_title d = Some (a_title r)"
    "a_due_date r = ad_due_date d" "a_points r = ad_points d" "points_ok (ad_points d)"
    "a_id r = ad_id d" "a_created_at r = ad_created_at d" "a_updated_at r = ad_updated_at d"
  using assms by (auto simp: AssignmentRead_def split: option.splits if_splits)

lemma AddressRead_Inr:
  assumes "AddressRead d = Inr r"
  shows "add_street d = Some (ad_street r)" "add_city d = Some (ad_city r)"
    "add_state d = Some (ad_state r)" "add_postal_code d = Some (ad_postal_code r)"
    "add_country d = Some (ad_country r)"
    "ad_ident r = add_ident d" "ad_created r = add_created d" "ad_updated r = add_updated d"
  using assms by (auto simp: AddressRead_def split: option.splits)

lemma PersonRead_Inr:
  assumes "PersonRead d = Inr r"
  shows "p_uni r = pd_uni d" "p_first_name r = pd_first_name d" "p_last_name r = pd_last_name d"
    "p_email r = pd_email d" "p_phone r = pd_phone d" "p_birth_date r = pd_birth_date d"
    "pd_addresses d = Some (p_addresses r)"
    "p_id r = pd_id d" "p_created_at r = pd_created_at d" "p_updated_at r = pd_updated_at d"
  using assms by (auto simp: PersonRead_def split: option.splits)

lemma update_course_Inr:
  assumes "map_of (courses st) course_id = Some stored"
    and "update_course now course_id upd st = (Inr r, st')"
  shows "CourseRead
           \<lparr>cd_code = field_get (cu_code upd) (Some (c_code stored)),
            cd_title = field_get (cu_title upd) (Some (c_title stored)),
            cd_instructor = field_get (cu_instructor upd) (Some (c_instructor stored)),
            cd_semester = field_get (cu_semester upd) (Some (c_semester stored)),
            cd_id = c_id stored,
            cd_created_at = c_created_at stored,
            cd_updated_at = now\<rparr> = Inr r"
    and "st' = st\<lparr>courses := AList.update course_id r (courses st)\<rparr>"
  using assms by (auto simp: update_course_def Let_def split: if_splits sum.splits)

lemma update_assignment_Inr:
  assumes "map_of (assignments st) assignment_id = Some stored"
    and "update_assignment now assignment_id upd st = (Inr r, st')"
  shows "AssignmentRead
           \<lparr>ad_course_id = field_get (au_course_id upd) (Some (a_course_id stored)),
            ad_title = field_get (au_title upd) (Some (a_title stored)),
            ad_due_date = field_get (au_due_date upd) (a_due_date stored),
            ad_points = field_get (au_points upd) (a_points stored),
            ad_id = a_id stored,
            ad_created_at = a_created_at stored,
            ad_updated_at = now\<rparr> = Inr r"
    and "st' = st\<lparr>assignments := AList.update assignment_id r (assignments st)\<rparr>"
    and "\<not> bad_course_ref (au_course_id upd) (courses st)"
  using assms by (auto simp: update_assignment_def split: if_splits sum.splits)

lemma update_address_Inr:
  assumes "map_of (addresses st) address_id = Some stored"
    and "update_address address_id upd st = (Inr r, st')"
  shows "AddressRead
           \<lparr>add_ident = ad_ident stored,
            add_street = field_get (adu_street upd) (Some (ad_street stored)),
            add_city = field_get (adu_city upd) (Some (ad_city stored)),
            add_state = field_get (adu_state upd) (Some (ad_state stored)),
            add_postal_code = field_get (adu_postal_code upd) (Some (ad_postal_code stored)),
            add_country = field_get (adu_country upd) (Some (ad_country stored)),
            add_created = ad_created stored,
            add_updated = ad_updated stored\<rparr> = Inr r"
    and "st' = st\<lparr>addresses := AList.update address_id r (addresses st)\<rparr>"
  using assms by (auto simp: update_address_def split: sum.splits)

lemma update_person_Inr:
  assumes "map_of (persons st) person_id = Some stored"
    and "update_person person_id upd st = (Inr r, st')"
  shows "PersonRead
           \<lparr>pd_uni = field_get (pu_uni upd) (p_uni stored),
            pd_first_name = field_get (pu_first_name upd) (p_first_name stored),
            pd_last_name = field_get (pu_last_name upd) (p_last_name stored),
            pd_email = field_get (pu_email upd) (p_email stored),
            pd_phone = field_get (pu_phone upd) (p_phone stored),
            pd_birth_date = field_get (pu_birth_date upd) (p_birth_date stored),
            pd_addresses = field_get (pu_addresses upd) (Some (p_addresses stored)),
            pd_id = p_id stored,
            pd_created_at = p_created_at stored,
            pd_updated_at = p_updated_at stored\<rparr> = Inr r"
    and "st' = st\<lparr>persons := AList.update person_id r (persons st)\<rparr>"
  using assms by (auto simp: update_person_def split: sum.splits)

lemma update_course_merge:
  assumes "map_of (courses st) course_id = Some stored"
    and "update_course now course_id upd st = (Inr r, st')"
  shows "merged (cu_code upd) (c_code stored) (c_code r)
    \<and> merged (cu_title upd) (c_title stored) (c_title r)
    \<and> merged (cu_instructor upd) (c_instructor stored) (c_instructor r)
    \<and> merged (cu_semester upd) (c_semester stored) (c_semester r)
    \<and> c_id r = c_id stored \<and> c_created_at r = c_created_at stored
    \<and> map_of (courses st') course_id = Some r"
  using CourseRead_Inr [OF update_course_Inr(1) [OF assms]] update_course_Inr(2) [OF assms]
  by (simp add: merged_field_get map_of_update_same)

lemma update_assignment_merge:
  assumes "map_of (assignments st) assignment_id = Some stored"
    and "update_assignment now assignment_id upd st = (Inr r, st')"
  shows "merged (au_course_id upd) (a_course_id stored) (a_course_id r)
    \<and> merged (au_title upd) (a_title stored) (a_title r)
    \<and> merged_opt (au_due_date upd) (a_due_date stored) (a_due_date r)
    \<and> merged_opt (au_points upd) (a_points stored) (a_points r)
    \<and> a_id r = a_id stored \<and> a_created_at r = a_created_at stored
    \<and> map_of (assignments st') assignment_id = Some r"
  using AssignmentRead_Inr [OF update_assignment_Inr(1) [OF assms]]
    update_assignment_Inr(2) [OF assms]
  by (simp add: merged_field_get merged_opt_field_get map_of_update_same)

lemma update_address_merge:
  assumes "map_of (addresses st) address_id = Some stored"
    and "update_address address_id upd st = (Inr r, st')"
  shows "merged (adu_street upd) (ad_street stored) (ad_street r)
    \<and> merged (adu_city upd) (ad_city stored) (ad_city r)
    \<and> merged (adu_state upd) (ad_state stored) (ad_state r)
    \<and> merged (adu_postal_code upd) (ad_postal_code stored) (ad_postal_code r)
    \<and> merged (adu_country upd) (ad_country stored) (ad_country r)
    \<and> ad_ident r = ad_ident stored \<and> ad_created r = ad_created stored
    \<and> map_of (addresses st') address_id = Some r"
  using AddressRead_Inr [OF update_address_Inr(1) [OF assms]] update_address_Inr(2) [OF assms]
  by (simp add: merged_field_get map_of_update_same)

lemma update_person_merge:
  assumes "map_of (persons st) person_id = Some stored"
    and "update_person person_id upd st = (Inr r, st')"
  shows "merged_opt (pu_uni upd) (p_uni stored) (p_uni r)
    \<and> merged_opt (pu_first_name upd) (p_first_name stored) (p_first_name r)
    \<and> merged_opt (pu_last_name upd) (p_last_name stored) (p_last_name r)
    \<and> merged_opt (pu_email upd) (p_email stored) (p_email r)
    \<and> merged_opt (pu_phone upd) (p_phone stored) (p_phone r)
    \<and> merged_opt (pu_birth_date upd) (p_birth_date stored) (p_birth_date r)
    \<and> merged (pu_addresses upd) (p_addresses stored) (p_addresses r)
    \<and> p_id r = p_id stored \<and> p_created_at r = p_created_at stored
    \<and> map_of (persons st') person_id = Some r"
  using PersonRead_Inr [OF update_person_Inr(1) [OF assms]] update_person_Inr(2) [OF assms]
  by (simp add: merged_field_get merged_opt_field_get map_of_update_same)

lemma store2_lookups:
  "map_of (courses store2) 2 = Some course_y_read"
  "map_of (courses store2) 1 = Some course_x_read"
  "map_of (assignments store2) 10 = Some hw1_read"
  "map_of (addresses store2) 3 = Some address_nyc"
  "map_of (persons store2) 4 = Some ann"
  by (simp_all add: store2_def)

lemma update_course_retitle:
  "update_course 9 2 retitle store2 =
     (Inr (course_y_read\<lparr>c_title := ''Data'', c_updated_at := 9\<rparr>),
      store2\<lparr>courses := [(1, course_x_read),
         (2, course_y_read\<lparr>c_title := ''Data'', c_updated_at := 9\<rparr>)]\<rparr>)"
  by (simp add: update_course_def store2_def retitle_def CourseRead_def dict_values_def
      course_x_read_def course_y_read_def Let_def)

lemma update_assignment_regrade:
  "update_assignment 9 10 regrade store2 =
     (Inr (hw1_read\<lparr>a_points := Some 50, a_updated_at := 9\<rparr>),
      store2\<lparr>assignments := [(10, hw1_read\<lparr>a_points := Some 50, a_updated_at := 9\<rparr>)]\<rparr>)"
  by (simp add: update_assignment_def store2_def regrade_def AssignmentRead_def
      bad_course_ref_def points_ok_def hw1_read_def)

lemma update_address_move:
  "update_address 3 move_to_la store2 =
     (Inr (address_nyc\<lparr>ad_city := ''LA''\<rparr>),
      store2\<lparr>addresses := [(3, address_nyc\<lparr>ad_city := ''LA''\<rparr>)]\<rparr>)"
  by (simp add: update_address_def store2_def move_to_la_def AddressRead_def address_nyc_def)

lemma update_person_rename:
  "update_person 4 rename_ann store2 =
     (Inr (ann\<lparr>p_first_name := Some ''Anna''\<rparr>),
      store2\<lparr>persons := [(4, ann\<lparr>p_first_name := Some ''Anna''\<rparr>), (5, bob)]\<rparr>)"
  by (simp add: update_person_def store2_def rename_ann_def PersonRead_def ann_def)

text \<open>
  C2. When an update of a stored record succeeds, each field of the record that the payload
  leaves out has its value from before the update and each field the payload gives has the
  payload's value; the id and created_at are kept, and the result is what the store then
  holds under the id. This is so for courses, assignments, addresses and persons.
\<close>

theorem partial_update_merge:
  "(map_of (courses st) course_id = Some c
      \<and> update_course now course_id cu st = (Inr c', stc)
    \<longrightarrow> merged (cu_code cu) (c_code c) (c_code c')
      \<and> merged (cu_title cu) (c_title c) (c_title c')
      \<and> merged (cu_instructor cu) (c_instructor c) (c_instructor c')
      \<and> merged (cu_semester cu) (c_semester c) (c_semester c')
      \<and> c_id c' = c_id c \<and> c_created_at c' = c_created_at c
      \<and> map_of (courses stc) course_id = Some c')
   \<and> (map_of (assignments st) assignment_id = Some a
      \<and> update_assignment now assignment_id au st = (Inr a', sta)
    \<longrightarrow> merged (au_course_id au) (a_course_id a) (a_course_id a')
      \<and> merged (au_title au) (a_title a) (a_title a')
      \<and> merged_opt (au_due_date au) (a_due_date a) (a_due_date a')
      \<and> merged_opt (au_points au) (a_points a) (a_points a')
      \<and> a_id a' = a_id a \<and> a_created_at a' = a_created_at a
      \<and> map_of (assignments sta) assignment_id = Some a')
   \<and> (map_of (addresses st) address_id = Some d
      \<and> update_address address_id du st = (Inr d', std)
    \<longrightarrow> merged (adu_street du) (ad_street d) (ad_street d')
      \<and> merged (adu_city du) (ad_city d) (ad_city d')
      \<and> merged (adu_state du) (ad_state d) (ad_state d')
      \<and> merged (adu_postal_code du) (ad_postal_code d) (ad_postal_code d')
      \<and> merged (adu_country du) (ad_country d) (ad_country d')
      \<and> ad_ident d' = ad_ident d \<and> ad_created d' = ad_created d
      \<and> map_of (addresses std) address_id = Some d')
   \<and> (map_of (persons st) person_id = Some p
      \<and> update_person person_id pu st = (Inr p', stp)
    \<longrightarrow> merged_opt (pu_uni pu) (p_uni p) (p_uni p')
      \<and> merged_opt (pu_first_name pu) (p_first_name p) (p_first_name p')
      \<and> merged_opt (pu_last_name pu) (p_last_name p) (p_last_name p')
      \<and> merged_opt (pu_email pu) (p_email p) (p_email p')
      \<and> merged_opt (pu_phone pu) (p_phone p) (p_phone p')
      \<and> merged_opt (pu_birth_date pu) (p_birth_date p) (p_birth_date p')
      \<and> merged (pu_addresses pu) (p_addresses p) (p_addresses p')
      \<and> p_id p' = p_id p \<and> p_created_at p' = p_created_at p
      \<and> map_of (persons stp) person_id = Some p')"
proof (intro conjI)
  show "map_of (courses st) course_id = Some c
      \<and> update_course now course_id cu st = (Inr c', stc)
    \<longrightarrow> merged (cu_code cu) (c_code c) (c_code c')
      \<and> merged (cu_title cu) (c_title c) (c_title c')
      \<and> merged (cu_instructor cu) (c_instructor c) (c_instructor c')
      \<and> merged (cu_semester cu) (c_semester c) (c_semester c')
      \<and> c_id c' = c_id c \<and> c_created_at c' = c_created_at c
      \<and> map_of (courses stc) course_id = Some c'"
    using update_course_merge by blast
  show "map_of (assignments st) assignment_id = Some a
      \<and> update_assignment now assignment_id au st = (Inr a', sta)
    \<longrightarrow> merged (au_course_id au) (a_course_id a) (a_course_id a')
      \<and> merged (au_title au) (a_title a) (a_title a')
      \<and> merged_opt (au_due_date au) (a_due_date a) (a_due_date a')
      \<and> merged_opt (au_points au) (a_points a) (a_points a')
      \<and> a_id a' = a_id a \<and> a_created_at a' = a_created_at a
      \<and> map_of (assignments sta) assignment_id = Some a'"
    using update_assignment_merge by blast
  show "map_of (addresses st) address_id = Some d
      \<and> update_address address_id du st = (Inr d', std)
    \<longrightarrow> merged (adu_street du) (ad_street d) (ad_street d')
      \<and> merged (adu_city du) (ad_city d) (ad_city d')
      \<and> merged (adu_state du) (ad_state d) (ad_state d')
      \<and> merged (adu_postal_code du) (ad_postal_code d) (ad_postal_code d')
      \<and> merged (adu_country du) (ad_country d) (ad_country d')
      \<and> ad_ident d' = ad_ident d \<and> ad_created d' = ad_created d
      \<and> map_of (addresses std) address_id = Some d'"
    using update_address_merge by blast
  show "map_of (persons st) person_id = Some p
      \<and> update_person person_id pu st = (Inr p', stp)
    \<longrightarrow> merged_opt (pu_uni pu) (p_uni p) (p_uni p')
      \<and> merged_opt (pu_first_name pu) (p_first_name p) (p_first_name p')
      \<and> merged_opt (pu_last_name pu) (p_last_name p) (p_last_name p')
      \<and> merged_opt (pu_email pu) (p_email p) (p_email p')
      \<and> merged_opt (pu_phone pu) (p_phone p) (p_phone p')
      \<and> merged_opt (pu_birth_date pu) (p_birth_date p) (p_birth_date p')
      \<and> merged (pu_addresses pu) (p_addresses p) (p_addresses p')
      \<and> p_id p' = p_id p \<and> p_created_at p' = p_created_at p
      \<and> map_of (persons stp) person_id = Some p'"
    using update_person_merge by blast
qed

theorem partial_update_merge_witness:
  "map_of (courses store2) 2 = Some course_y_read
   \<and> fst (update_course 9 2 retitle store2)
       = Inr (course_y_read\<lparr>c_title := ''Data'', c_updated_at := 9\<rparr>)
   \<and> merged (cu_title retitle) (c_title course_y_read) ''Data''
   \<and> merged (cu_code retitle) (c_code course_y_read) ''Y''
   \<and> map_of (assignments store2) 10 = Some hw1_read
   \<and> fst (update_assignment 9 10 regrade store2)
       = Inr (hw1_read\<lparr>a_points := Some 50, a_updated_at := 9\<rparr>)
   \<and> merged_opt (au_points regrade) (a_points hw1_read) (Some 50)
   \<and> merged (au_title regrade) (a_title hw1_read) ''HW1''
   \<and> map_of (addresses store2) 3 = Some address_nyc
   \<and> fst (update_address 3 move_to_la store2) = Inr (address_nyc\<lparr>ad_city := ''LA''\<rparr>)
   \<and> merged (adu_city move_to_la) (ad_city address_nyc) ''LA''
   \<and> merged (adu_street move_to_la) (ad_street address_nyc) ''1 Main St''
   \<and> map_of (persons store2) 4 = Some ann
   \<and> fst (update_person 4 rename_ann store2) = Inr (ann\<lparr>p_first_name := Some ''Anna''\<rparr>)
   \<and> merged_opt (pu_first_name rename_ann) (p_first_name ann) (Some ''Anna'')
   \<and> merged_opt (pu_uni rename_ann) (p_uni ann) (Some ''ab1234'')"
proof -
  note m = partial_update_merge [where st = store2
      and course_id = 2 and c = course_y_read and now = 9 and cu = retitle
      and c' = "course_y_read\<lparr>c_title := ''Data'', c_updated_at := 9\<rparr>"
      and stc = "store2\<lparr>courses := [(1, course_x_read),
         (2, course_y_read\<lparr>c_title := ''Data'', c_updated_at := 9\<rparr>)]\<rparr>"
      and assignment_id = 10 and a = hw1_read and au = regrade
      and a' = "hw1_read\<lparr>a_points := Some 50, a_updated_at := 9\<rparr>"
      and sta = "store2\<lparr>assignments := [(10, hw1_read\<lparr>a_points := Some 50, a_updated_at := 9\<rparr>)]\<rparr>"
      and address_id = 3 and d = address_nyc and du = move_to_la
      and d' = "address_nyc\<lparr>ad_city := ''LA''\<rparr>"
      and std = "store2\<lparr>addresses := [(3, address_nyc\<lparr>ad_city := ''LA''\<rparr>)]\<rparr>"
      and person_id = 4 and p = ann and pu = rename_ann
      and p' = "ann\<lparr>p_first_name := Some ''Anna''\<rparr>"
      and stp = "store2\<lparr>persons := [(4, ann\<lparr>p_first_name := Some ''Anna''\<rparr>), (5, bob)]\<rparr>"]
  have vals: "c_code course_y_read = ''Y''" "a_title hw1_read = ''HW1''"
    "ad_street address_nyc = ''1 Main St''" "p_uni ann = Some ''ab1234''"
    by (simp_all add: course_y_read_def hw1_read_def address_nyc_def ann_def)
  from m store2_lookups update_course_retitle update_assignment_regrade update_address_move
    update_person_rename vals
  show ?thesis by simp
qed

section \<open>A call that raises leaves the store alone\<close>

lemma refs_ok_iff:
  "refs_ok st \<longleftrightarrow> (\<forall>(aid, a) \<in> set (assignments st). dict_in (a_course_id a) (courses st))"
  by (auto simp: refs_ok_def dict_values_def list_all_iff)

lemma course_keys_ok_iff:
  "course_keys_ok st \<longleftrightarrow> (\<forall>(k, c) \<in> set (courses st). c_id c = k)"
  by (simp add: course_keys_ok_def list_all_iff)

lemma dict_in_update: "dict_in k (AList.update k' v al) \<longleftrightarrow> k = k' \<or> dict_in k al"
  by (simp add: dict_in_def AList.update_conv')

lemma dict_in_delete: "dict_in k (AList.delete k' al) \<longleftrightarrow> k \<noteq> k' \<and> dict_in k al"
  by (simp add: dict_in_def AList.delete_conv')

lemma in_updateD: "p \<in> set (AList.update k v al) \<Longrightarrow> p = (k, v) \<or> p \<in> set al"
  using set_update_subset [of k v al] by auto

lemma reply_snd: "snd (reply f out) = snd out"
  by (simp add: reply_def)

lemma reply_fst_Inl: "fst (reply f out) = Inl e \<longleftrightarrow> fst out = Inl e"
  by (simp add: reply_def split: sum.splits)



lemma create_address_Inl:
  "fst (create_address now address st) = Inl e \<Longrightarrow> snd (create_address now address st) = st"
  by (simp add: create_address_def Let_def split: if_splits)

lemma update_address_Inl:
  "fst (update_address address_id upd st) = Inl e \<Longrightarrow> snd (update_address address_id upd st) = st"
  by (simp add: update_address_def split: option.splits sum.splits)

lemma create_person_Inl:
  "fst (create_person now new_id person st) = Inl e \<Longrightarrow> snd (create_person now new_id person st) = st"
  by (simp add: create_person_def Let_def)

lemma update_person_Inl:
  "fst (update_person person_id upd st) = Inl e \<Longrightarrow> snd (update_person person_id upd st) = st"
  by (simp add: update_person_def split: option.splits sum.splits)

lemma create_course_Inl:
  "fst (create_course now new_id course st) = Inl e \<Longrightarrow> snd (create_course now new_id course st) = st"
  by (simp add: create_course_def Let_def split: if_splits)

lemma update_course_Inl:
  "fst (update_course now course_id upd st) = Inl e \<Longrightarrow> snd (update_course now course_id upd st) = st"
  by (simp add: update_course_def Let_def split: option.splits sum.splits if_splits)

lemma delete_course_Inl:
  "fst (delete_course course_id st) = Inl e \<Longrightarrow> snd (delete_course course_id st) = st"
  by (simp add: delete_course_def Let_def split: if_splits)

lemma create_assignment_Inl:
  "fst (create_assignment now new_id assignment st) = Inl e
   \<Longrightarrow> snd (create_assignment now new_id assignment st) = st"
  by (simp add: create_assignment_def split: sum.splits if_splits)

lemma post_assignments_Inl:
  "fst (post_assignments now new_id body st) = Inl e
   \<Longrightarrow> snd (post_assignments now new_id body st) = st"
  by (simp add: post_assignments_def create_assignment_Inl split: sum.splits)

lemma update_assignment_Inl:
  "fst (update_assignment now assignment_id upd st) = Inl e
   \<Longrightarrow> snd (update_assignment now assignment_id upd st) = st"
  by (simp add: update_assignment_def split: option.splits sum.splits if_splits)

lemma patch_assignment_Inl:
  "fst (patch_assignment now assignment_id body st) = Inl e
   \<Longrightarrow> snd (patch_assignment now assignment_id body st) = st"
  by (simp add: patch_assignment_def update_assignment_Inl split: sum.splits)

lemma delete_assignment_Inl:
  "fst (delete_assignment assignment_id st) = Inl e \<Longrightarrow> snd (delete_assignment assignment_id st) = st"
  by (simp add: delete_assignment_def split: if_splits)

text \<open>
  C6. Whenever a create, update or delete call raises (NotFound, Conflict, BadReference,
  DuplicateId or Validation), the four stores are exactly as they were before the call.
\<close>

theorem failure_leaves_store:
  assumes "fst (handle req st) = Inl e"
  shows "snd (handle req st) = st"
  using assms
  by (cases req)
    (simp_all add: reply_snd reply_fst_Inl create_address_Inl update_address_Inl
      create_person_Inl update_person_Inl create_course_Inl update_course_Inl delete_course_Inl
      post_assignments_Inl patch_assignment_Inl delete_assignment_Inl)

theorem failure_leaves_store_witness:
  "fst (handle (DeleteCourse 99) store1) = Inl NotFound
   \<and> snd (handle (DeleteCourse 99) store1) = store1
   \<and> fst (handle (CreateCourse 7 2 course_x) store1) = Inl Conflict
   \<and> snd (handle (CreateCourse 7 2 course_x) store1) = store1
   \<and> fst (handle (UpdateAssignment 7 10 move_course) store1) = Inl BadReference
   \<and> snd (handle (UpdateAssignment 7 10 move_course) store1) = store1
   \<and> fst (handle (CreateAssignment 7 11 hw3_body) store1) = Inl Validation
   \<and> snd (handle (CreateAssignment 7 11 hw3_body) store1) = store1"
proof -
  have f: "fst (handle (DeleteCourse 99) store1) = Inl NotFound"
    by (simp add: reply_def delete_course_def dict_in_def store1_def)
  have c: "fst (handle (CreateCourse 7 2 course_x) store1) = Inl Conflict"
    by (simp add: reply_def create_course_def dict_values_def store1_def course_x_def
        course_x_read_def)
  have b: "fst (handle (UpdateAssignment 7 10 move_course) store1) = Inl BadReference"
    by (simp add: reply_def patch_assignment_def AssignmentUpdate_def update_assignment_def
        bad_course_ref_def points_ok_def dict_in_def store1_def move_course_def)
  have v: "fst (handle (CreateAssignment 7 11 hw3_body) store1) = Inl Validation"
    by (simp add: reply_def post_assignments_def AssignmentCreate_def points_ok_def hw3_body_def)
  from f c b v failure_leaves_store [OF f] failure_leaves_store [OF c]
    failure_leaves_store [OF b] failure_leaves_store [OF v]
  show ?thesis by simp
qed

section \<open>References stay resolved\<close>

lemma refs_ok_frame:
  "courses st' = courses st \<Longrightarrow> assignments st' = assignments st \<Longrightarrow> refs_ok st' = refs_ok st"
  by (simp add: refs_ok_def)

lemma course_keys_ok_frame:
  "courses st' = courses st \<Longrightarrow> course_keys_ok st' = course_keys_ok st"
  by (simp add: course_keys_ok_def)

lemma untouched:
  "courses (snd (create_address now address st)) = courses st"
  "assignments (snd (create_address now address st)) = assignments st"
  "courses (snd (update_address address_id au st)) = courses st"
  "assignments (snd (update_address address_id au st)) = assignments st"
  "courses (snd (create_person now new_id person st)) = courses st"
  "assignments (snd (create_person now new_id person st)) = assignments st"
  "courses (snd (update_person person_id pu st)) = courses st"
  "assignments (snd (update_person person_id pu st)) = assignments st"
  by (simp_all add: create_address_def update_address_def create_person_def update_person_def
      Let_def split: option.splits sum.splits)

lemma create_course_refs:
  "refs_ok st \<Longrightarrow> refs_ok (snd (create_course now new_id course st))"
  by (auto simp: create_course_def Let_def refs_ok_iff dict_in_update)

lemma create_course_keys:
  "course_keys_ok st \<Longrightarrow> course_keys_ok (snd (create_course now new_id course st))"
  by (auto simp: create_course_def Let_def course_keys_ok_iff dest!: in_updateD)

lemma update_course_effect:
  assumes "fst (update_course now course_id upd st) = Inr r"
  obtains stored where "map_of (courses st) course_id = Some stored" "c_id r = c_id stored"
    "snd (update_course now course_id upd st) = st\<lparr>courses := AList.update course_id r (courses st)\<rparr>"
proof -
  from assms obtain stored where s: "map_of (courses st) course_id = Some stored"
    by (auto simp: update_course_def split: option.splits)
  from assms have "update_course now course_id upd st = (Inr r, snd (update_course now course_id upd st))"
    by (simp add: prod_eq_iff)
  note u = update_course_Inr [OF s this]
  from CourseRead_Inr(5) [OF u(1)] have "c_id r = c_id stored" by simp
  with s u(2) that show thesis by blast
qed

lemma update_course_refs:
  assumes "refs_ok st"
  shows "refs_ok (snd (update_course now course_id upd st))"
proof (cases "fst (update_course now course_id upd st)")
  case (Inl e)
  with assms show ?thesis by (simp add: update_course_Inl)
next
  case (Inr r)
  then show ?thesis
  proof (rule update_course_effect)
    assume "snd (update_course now course_id upd st)
        = st\<lparr>courses := AList.update course_id r (courses st)\<rparr>"
    with assms show ?thesis by (auto simp: refs_ok_iff dict_in_update)
  qed
qed

lemma update_course_keys:
  assumes "course_keys_ok st"
  shows "course_keys_ok (snd (update_course now course_id upd st))"
proof (cases "fst (update_course now course_id upd st)")
  case (Inl e)
  with assms show ?thesis by (simp add: update_course_Inl)
next
  case (Inr r)
  then show ?thesis
  proof (rule update_course_effect)
    fix stored
    assume s: "map_of (courses st) course_id = Some stored" and i: "c_id r = c_id stored"
      and st': "snd (update_course now course_id upd st)
          = st\<lparr>courses := AList.update course_id r (courses st)\<rparr>"
    from s have "(course_id, stored) \<in> set (courses st)" by (rule map_of_SomeD)
    with assms have "c_id stored = course_id" by (auto simp: course_keys_ok_iff)
    with assms i show ?thesis unfolding st'
      by (auto simp: course_keys_ok_iff dest!: in_updateD)
  qed
qed

lemma delete_course_refs:
  assumes "refs_ok st"
  shows "refs_ok (snd (delete_course course_id st))"
proof (cases "dict_in course_id (courses st)")
  case False
  with assms show ?thesis by (simp add: delete_course_def)
next
  case True
  let ?aids = "map fst (filter (\<lambda>(aid, a). a_course_id a = course_id) (assignments st))"
  from True have st': "snd (delete_course course_id st) =
      st\<lparr>assignments := foldl (\<lambda>d aid. AList.delete aid d) (assignments st) ?aids,
         courses := AList.delete course_id (courses st)\<rparr>"
    by (simp add: delete_course_def Let_def)
  have "dict_in (a_course_id a) (courses (snd (delete_course course_id st)))"
    if "(aid, a) \<in> set (assignments (snd (delete_course course_id st)))" for aid a
  proof -
    from that have mem: "(aid, a) \<in> set (assignments st)" and keep: "aid \<notin> set ?aids"
      by (auto simp: st' set_delete_all)
    from keep mem have "a_course_id a \<noteq> course_id" by force
    moreover from assms mem have "dict_in (a_course_id a) (courses st)"
      by (auto simp: refs_ok_iff)
    ultimately show ?thesis by (simp add: st' dict_in_delete)
  qed
  then show ?thesis by (auto simp: refs_ok_iff)
qed

lemma delete_course_keys:
  "course_keys_ok st \<Longrightarrow> course_keys_ok (snd (delete_course course_id st))"
  by (auto simp: delete_course_def Let_def course_keys_ok_iff set_delete)

lemma create_assignment_refs:
  "refs_ok st \<Longrightarrow> refs_ok (snd (create_assignment now new_id assignment st))"
  by (auto simp: create_assignment_def AssignmentRead_def refs_ok_iff
      split: if_splits dest!: in_updateD)

lemma post_assignments_refs:
  "refs_ok st \<Longrightarrow> refs_ok (snd (post_assignments now new_id body st))"
  by (simp add: post_assignments_def create_assignment_refs split: sum.splits)

lemma update_assignment_effect:
  assumes "fst (update_assignment now assignment_id upd st) = Inr r"
  obtains stored where "map_of (assignments st) assignment_id = Some stored"
    "a_course_id r = a_course_id stored \<or> dict_in (a_course_id r) (courses st)"
    "snd (update_assignment now assignment_id upd st)
       = st\<lparr>assignments := AList.update assignment_id r (assignments st)\<rparr>"
proof -
  from assms obtain stored where s: "map_of (assignments st) assignment_id = Some stored"
    by (auto simp: update_assignment_def split: option.splits)
  from assms have "update_assignment now assignment_id upd st
      = (Inr r, snd (update_assignment now assignment_id upd st))"
    by (simp add: prod_eq_iff)
  note u = update_assignment_Inr [OF s this]
  from AssignmentRead_Inr(1) [OF u(1)]
  have cid: "field_get (au_course_id upd) (Some (a_course_id stored)) = Some (a_course_id r)"
    by simp
  have "a_course_id r = a_course_id stored \<or> dict_in (a_course_id r) (courses st)"
    using cid u(3) by (cases "au_course_id upd") (auto simp: bad_course_ref_def)
  with s u(2) that show thesis by blast
qed

lemma update_assignment_refs:
  assumes "refs_ok st"
  shows "refs_ok (snd (update_assignment now assignment_id upd st))"
proof (cases "fst (update_assignment now assignment_id upd st)")
  case (Inl e)
  with assms show ?thesis by (simp add: update_assignment_Inl)
next
  case (Inr r)
  then show ?thesis
  proof (rule update_assignment_effect)
    fix stored
    assume s: "map_of (assignments st) assignment_id = Some stored"
      and c: "a_course_id r = a_course_id stored \<or> dict_in (a_course_id r) (courses st)"
      and st': "snd (update_assignment now assignment_id upd st)
          = st\<lparr>assignments := AList.update assignment_id r (assignments st)\<rparr>"
    from s have "(assignment_id, stored) \<in> set (assignments st)" by (rule map_of_SomeD)
    with assms have "dict_in (a_course_id stored) (courses st)" by (auto simp: refs_ok_iff)
    with c have "dict_in (a_course_id r) (courses st)" by auto
    with assms show ?thesis unfolding st'
      by (auto simp: refs_ok_iff dest!: in_updateD)
  qed
qed

lemma patch_assignment_refs:
  "refs_ok st \<Longrightarrow> refs_ok (snd (patch_assignment now assignment_id body st))"
  by (simp add: patch_assignment_def update_assignment_refs split: sum.splits)

lemma delete_assignment_refs:
  "refs_ok st \<Longrightarrow> refs_ok (snd (delete_assignment assignment_id st))"
  by (auto simp: delete_assignment_def refs_ok_iff set_delete)

lemma assignment_calls_keep_courses:
  "courses (snd (post_assignments now new_id body st)) = courses st"
  "courses (snd (patch_assignment now assignment_id upd st)) = courses st"
  "courses (snd (delete_assignment assignment_id st)) = courses st"
  by (simp_all add: post_assignments_def create_assignment_def patch_assignment_def
      update_assignment_def delete_assignment_def split: option.splits sum.splits)

lemma other_calls_refs:
  "refs_ok (snd (create_address now address st)) = refs_ok st"
  "refs_ok (snd (update_address address_id au st)) = refs_ok st"
  "refs_ok (snd (create_person now new_id person st)) = refs_ok st"
  "refs_ok (snd (update_person person_id pu st)) = refs_ok st"
  by (simp_all add: refs_ok_def untouched)

lemma other_calls_keys:
  "course_keys_ok (snd (create_address now address st)) = course_keys_ok st"
  "course_keys_ok (snd (update_address address_id au st)) = course_keys_ok st"
  "course_keys_ok (snd (create_person now new_id person st)) = course_keys_ok st"
  "course_keys_ok (snd (update_person person_id pu st)) = course_keys_ok st"
  "course_keys_ok (snd (post_assignments now new_id body st)) = course_keys_ok st"
  "course_keys_ok (snd (patch_assignment now assignment_id upd st)) = course_keys_ok st"
  "course_keys_ok (snd (delete_assignment assignment_id st)) = course_keys_ok st"
  by (simp_all add: course_keys_ok_def untouched assignment_calls_keep_courses)

lemma handle_refs: "refs_ok st \<Longrightarrow> refs_ok (snd (handle req st))"
  by (cases req)
    (simp_all add: reply_snd other_calls_refs
      create_course_refs update_course_refs delete_course_refs post_assignments_refs
      patch_assignment_refs delete_assignment_refs)

lemma handle_keys: "course_keys_ok st \<Longrightarrow> course_keys_ok (snd (handle req st))"
  by (cases req)
    (simp_all add: reply_snd other_calls_keys
      create_course_keys update_course_keys delete_course_keys)

lemma run_refs: "refs_ok st \<Longrightarrow> refs_ok (run reqs st)"
  by (induction reqs arbitrary: st) (simp_all add: handle_refs)

lemma run_keys: "course_keys_ok st \<Longrightarrow> course_keys_ok (run reqs st)"
  by (induction reqs arbitrary: st) (simp_all add: handle_keys)

lemma empty_store_ok: "refs_ok empty_store" "course_keys_ok empty_store"
  by (simp_all add: refs_ok_def course_keys_ok_def empty_store_def dict_values_def)

lemma dict_in_stored:
  assumes "course_keys_ok st" "dict_in k (courses st)"
  shows "\<exists>c \<in> set (dict_values (courses st)). c_id c = k"
proof -
  from assms(2) obtain c where "map_of (courses st) k = Some c"
    by (auto simp: dict_in_def)
  then have mem: "(k, c) \<in> set (courses st)" by (rule map_of_SomeD)
  with assms(1) have "c_id c = k" by (auto simp: course_keys_ok_iff)
  moreover from mem have "c \<in> set (dict_values (courses st))"
    by (force simp: dict_values_def)
  ultimately show ?thesis by blast
qed

text \<open>
  C8. After any sequence of calls from the empty stores, the course_id of every stored
  assignment is the id of a stored course.
\<close>

theorem references_resolve:
  "\<forall>a \<in> set (dict_values (assignments (run reqs empty_store))).
     \<exists>c \<in> set (dict_values (courses (run reqs empty_store))). c_id c = a_course_id a"
proof
  fix a
  assume "a \<in> set (dict_values (assignments (run reqs empty_store)))"
  moreover have "refs_ok (run reqs empty_store)"
    by (rule run_refs) (rule empty_store_ok)
  ultimately have "dict_in (a_course_id a) (courses (run reqs empty_store))"
    by (simp add: refs_ok_def list_all_iff)
  moreover have "course_keys_ok (run reqs empty_store)"
    by (rule run_keys) (rule empty_store_ok)
  ultimately show "\<exists>c \<in> set (dict_values (courses (run reqs empty_store))). c_id c = a_course_id a"
    by (rule dict_in_stored [rotated])
qed

theorem references_resolve_witness:
  "hw1_read \<in> set (dict_values (assignments
      (run [CreateCourse 5 1 course_x, CreateAssignment 6 10 hw1_body] empty_store)))
   \<and> (\<exists>c \<in> set (dict_values (courses
      (run [CreateCourse 5 1 course_x, CreateAssignment 6 10 hw1_body] empty_store))).
        c_id c = a_course_id hw1_read)"
proof -
  have mem: "hw1_read \<in> set (dict_values (assignments
      (run [CreateCourse 5 1 course_x, CreateAssignment 6 10 hw1_body] empty_store)))"
    unfolding store1_run by (simp add: store1_def dict_values_def)
  from references_resolve [of "[CreateCourse 5 1 course_x, CreateAssignment 6 10 hw1_body]"] mem
  show ?thesis by blast
qed

section \<open>Referential integrity on create and update\<close>

text \<open>
  C4. In every store the service can reach from the empty stores: creating an assignment
  whose course_id is not the id of a stored course raises BadReference, and so does updating
  a stored assignment when the course_id the record would have after the merge is not the
  id of a stored course; the store is left as it was.
\<close>

theorem bad_reference:
  assumes "st = run reqs empty_store"
  shows "(a_course_id assignment \<notin> c_id ` set (dict_values (courses st))
      \<longrightarrow> create_assignment now new_id assignment st = (Inl BadReference, st))
    \<and> (map_of (assignments st) assignment_id = Some stored
        \<and> field_get (au_course_id upd) (Some (a_course_id stored))
            \<notin> Some ` c_id ` set (dict_values (courses st))
      \<longrightarrow> update_assignment now assignment_id upd st = (Inl BadReference, st))"
proof -
  have refs: "refs_ok st" and keys: "course_keys_ok st"
    unfolding assms by (rule run_refs run_keys, rule empty_store_ok)+
  have known: "k \<in> c_id ` set (dict_values (courses st))" if "dict_in k (courses st)" for k
    using dict_in_stored [OF keys that] by auto
  have create: "create_assignment now new_id assignment st = (Inl BadReference, st)"
    if "a_course_id assignment \<notin> c_id ` set (dict_values (courses st))"
    using that known by (auto simp: create_assignment_def)
  have update: "update_assignment now assignment_id upd st = (Inl BadReference, st)"
    if s: "map_of (assignments st) assignment_id = Some stored"
      and n: "field_get (au_course_id upd) (Some (a_course_id stored))
            \<notin> Some ` c_id ` set (dict_values (courses st))"
  proof -
    from s have "(assignment_id, stored) \<in> set (assignments st)" by (rule map_of_SomeD)
    with refs have "dict_in (a_course_id stored) (courses st)" by (auto simp: refs_ok_iff)
    then have here: "a_course_id stored \<in> c_id ` set (dict_values (courses st))" by (rule known)
    have "bad_course_ref (au_course_id upd) (courses st)"
    proof (cases "au_course_id upd")
      case Unset
      with n here show ?thesis by simp
    next
      case (Given v)
      with n known show ?thesis
        by (cases v) (auto simp: bad_course_ref_def)
    qed
    with s show ?thesis by (simp add: update_assignment_def)
  qed
  from create update show ?thesis by blast
qed

theorem bad_reference_witness:
  "store1 = run [CreateCourse 5 1 course_x, CreateAssignment 6 10 hw1_body] empty_store
   \<and> a_course_id hw2 \<notin> c_id ` set (dict_values (courses store1))
   \<and> create_assignment 7 11 hw2 store1 = (Inl BadReference, store1)
   \<and> map_of (assignments store1) 10 = Some hw1_read
   \<and> field_get (au_course_id move_course) (Some (a_course_id hw1_read))
        \<notin> Some ` c_id ` set (dict_values (courses store1))
   \<and> update_assignment 7 10 move_course store1 = (Inl BadReference, store1)"
proof -
  have r: "store1 = run [CreateCourse 5 1 course_x, CreateAssignment 6 10 hw1_body] empty_store"
    by (simp only: store1_run)
  have h: "a_course_id hw2 \<notin> c_id ` set (dict_values (courses store1))"
    "map_of (assignments store1) 10 = Some hw1_read"
    "field_get (au_course_id move_course) (Some (a_course_id hw1_read))
        \<notin> Some ` c_id ` set (dict_values (courses store1))"
    by (simp_all add: store1_def dict_values_def hw2_def move_course_def course_x_read_def)
  from bad_reference [OF r, of hw2 7 11 10 hw1_read move_course] r h
  show ?thesis by blast
qed

section \<open>Points\<close>

text \<open>
  C9. An assignment created from a body that leaves points out is stored with points 100;
  a body that gives points below 0 or above 1000 is refused with a validation error, on
  create and on update, and the store is left as it was.
\<close>

theorem assignment_points:
  "(ab_points body = Unset \<and> fst (post_assignments now new_id body st) = Inr r
      \<longrightarrow> a_points r = Some 100
        \<and> map_of (assignments (snd (post_assignments now new_id body st))) new_id = Some r)
   \<and> ((n < 0 \<or> 1000 < n) \<and> ab_points body = Given (Some n)
      \<longrightarrow> post_assignments now new_id body st = (Inl Validation, st))
   \<and> ((n < 0 \<or> 1000 < n) \<and> au_points upd = Given (Some n)
      \<longrightarrow> patch_assignment now assignment_id upd st = (Inl Validation, st))"
proof (intro conjI impI)
  assume a: "ab_points body = Unset \<and> fst (post_assignments now new_id body st) = Inr r"
  then obtain assignment where p: "AssignmentCreate body = Inr assignment"
    and c: "fst (create_assignment now new_id assignment st) = Inr r"
    and s: "post_assignments now new_id body st = create_assignment now new_id assignment st"
    by (auto simp: post_assignments_def split: sum.splits)
  from p a have "a_points assignment = Some 100"
    by (auto simp: AssignmentCreate_def Let_def split: field.splits option.splits if_splits)
  with c show "a_points r = Some 100"
    by (auto simp: create_assignment_def AssignmentRead_def split: if_splits)
  from c show "map_of (assignments (snd (post_assignments now new_id body st))) new_id = Some r"
    unfolding s
    by (auto simp: create_assignment_def AssignmentRead_def map_of_update_same split: if_splits)
next
  assume "(n < 0 \<or> 1000 < n) \<and> ab_points body = Given (Some n)"
  then show "post_assignments now new_id body st = (Inl Validation, st)"
    by (auto simp: post_assignments_def AssignmentCreate_def points_ok_def
        split: field.splits option.splits)
next
  assume "(n < 0 \<or> 1000 < n) \<and> au_points upd = Given (Some n)"
  then show "patch_assignment now assignment_id upd st = (Inl Validation, st)"
    by (auto simp: patch_assignment_def AssignmentUpdate_def points_ok_def)
qed

theorem assignment_points_witness:
  "ab_points hw1_body = Unset
   \<and> fst (post_assignments 8 11 hw1_body store1)
       = Inr (hw1_read\<lparr>a_id := 11, a_created_at := 8, a_updated_at := 8\<rparr>)
   \<and> a_points (hw1_read\<lparr>a_id := 11, a_created_at := 8, a_updated_at := 8\<rparr>) = Some 100
   \<and> map_of (assignments (snd (post_assignments 8 11 hw1_body store1))) 11
       = Some (hw1_read\<lparr>a_id := 11, a_created_at := 8, a_updated_at := 8\<rparr>)
   \<and> ab_points hw3_body = Given (Some (- 1))
   \<and> post_assignments 8 11 hw3_body store1 = (Inl Validation, store1)
   \<and> au_points overgrade = Given (Some 1001)
   \<and> patch_assignment 8 10 overgrade store1 = (Inl Validation, store1)"
proof -
  have u: "ab_points hw1_body = Unset"
    and e: "fst (post_assignments 8 11 hw1_body store1)
       = Inr (hw1_read\<lparr>a_id := 11, a_created_at := 8, a_updated_at := 8\<rparr>)"
    by (simp_all add: post_assignments_def create_assignment_def AssignmentCreate_def
        AssignmentRead_def points_ok_def dict_in_def store1_def hw1_body_def hw1_read_def Let_def)
  have lo: "((- 1 :: int) < 0 \<or> 1000 < (- 1 :: int)) \<and> ab_points hw3_body = Given (Some (- 1))"
    by (simp add: hw3_body_def)
  have hi: "((1001 :: int) < 0 \<or> 1000 < (1001 :: int)) \<and> au_points overgrade = Given (Some 1001)"
    by (simp add: overgrade_def)
  from u e lo hi
    assignment_points [where body = hw1_body and now = 8 and new_id = 11 and st = store1
      and r = "hw1_read\<lparr>a_id := 11, a_created_at := 8, a_updated_at := 8\<rparr>"]
    assignment_points [where body = hw3_body and now = 8 and new_id = 11 and st = store1
      and n = "- 1"]
    assignment_points [where upd = overgrade and now = 8 and assignment_id = 10 and st = store1
      and n = 1001]
  show ?thesis by blast
qed

section \<open>Listing persons\<close>

lemma filter_when:
  "(case flt of None \<Rightarrow> xs | Some v \<Rightarrow> filter (P v) xs)
     = filter (\<lambda>x. case flt of None \<Rightarrow> True | Some v \<Rightarrow> P v x) xs"
  by (cases flt) simp_all

lemma list_persons_as_filter:
  "list_persons uni first_name last_name email phone birth_date city country st
     = filter (\<lambda>p. eq_filter uni (p_uni p) \<and> eq_filter first_name (p_first_name p)
          \<and> eq_filter last_name (p_last_name p) \<and> eq_filter email (p_email p)
          \<and> eq_filter phone (p_phone p)
          \<and> (case birth_date of None \<Rightarrow> True | Some d \<Rightarrow> str_date (p_birth_date p) = d)
          \<and> (case city of None \<Rightarrow> True
              | Some v \<Rightarrow> \<exists>addr \<in> set (p_addresses p). ad_city addr = v)
          \<and> (case country of None \<Rightarrow> True
              | Some v \<Rightarrow> \<exists>addr \<in> set (p_addresses p). ad_country addr = v))
         (dict_values (persons st))"
  unfolding list_persons_def Let_def filter_when filter_filter
  by (rule filter_cong [OF refl])
    (simp add: eq_filter_def list_ex_iff cong: option.case_cong)

lemma birth_date_filter:
  assumes "birth_date \<noteq> Some ''None''"
  shows "(case birth_date of None \<Rightarrow> True | Some d \<Rightarrow> str_date b = d) = eq_filter birth_date b"
  using assms by (cases birth_date; cases b) (auto simp: str_date_def eq_filter_def)

lemma list_persons_filters_dated:
  assumes "birth_date \<noteq> Some ''None''"
  shows "list_persons uni first_name last_name email phone birth_date city country st
     = filter (person_matches uni first_name last_name email phone birth_date city country)
         (dict_values (persons st))"
  unfolding list_persons_as_filter person_matches_def birth_date_filter [OF assms] ..

text \<open>
  C10. Listing persons with the birth date filter \<open>None\<close> and the city filter LA returns
  a stored person who has no birth date, where no person's birth date equals the filter:
  the handler compares the filter with \<open>str\<close> of the stored value, and \<open>str\<close> of a
  missing birth date is the text \<open>None\<close>. With any other birth date filter, or none,
  the list is the stored persons that satisfy every supplied equality filter and have an
  embedded address with the city and the country asked for, as the lemma before shows.
\<close>

theorem list_persons_birth_date_none:
  "p_birth_date bob = None
   \<and> list_persons None None None None None (Some ''None'') (Some ''LA'') None store2 = [bob]
   \<and> filter (person_matches None None None None None (Some ''None'') (Some ''LA'') None)
        (dict_values (persons store2)) = []"
  by (simp add: list_persons_as_filter person_matches_def eq_filter_def str_date_def
      store2_def dict_values_def ann_def bob_def home_nyc_def home_la_def)

section \<open>The update time stamp\<close>

text \<open>
  C7. Updating the city of the stored address, and the first name of a stored person,
  succeeds and leaves updated_at at its value from before the update: these two handlers
  never read the clock. The course and assignment handlers set updated_at to the clock's
  reading, as the two lemmas after it show.
\<close>

theorem update_address_keeps_updated_at:
  "fst (update_address 3 move_to_la store2) = Inr (address_nyc\<lparr>ad_city := ''LA''\<rparr>)
   \<and> ad_updated (address_nyc\<lparr>ad_city := ''LA''\<rparr>) = ad_updated address_nyc
   \<and> map_of (addresses (snd (update_address 3 move_to_la store2))) 3
       = Some (address_nyc\<lparr>ad_city := ''LA''\<rparr>)
   \<and> fst (update_person 4 rename_ann store2) = Inr (ann\<lparr>p_first_name := Some ''Anna''\<rparr>)
   \<and> p_updated_at (ann\<lparr>p_first_name := Some ''Anna''\<rparr>) = p_updated_at ann
   \<and> map_of (persons (snd (update_person 4 rename_ann store2))) 4
       = Some (ann\<lparr>p_first_name := Some ''Anna''\<rparr>)"
  by (simp add: update_address_move update_person_rename)

lemma update_course_updated_at:
  assumes "update_course now course_id upd st = (Inr r, st')"
  shows "c_updated_at r = now"
proof -
  from assms obtain stored where s: "map_of (courses st) course_id = Some stored"
    by (auto simp: update_course_def split: option.splits)
  from CourseRead_Inr(7) [OF update_course_Inr(1) [OF s assms]] show ?thesis by simp
qed

lemma update_assignment_updated_at:
  assumes "update_assignment now assignment_id upd st = (Inr r, st')"
  shows "a_updated_at r = now"
proof -
  from assms obtain stored where s: "map_of (assignments st) assignment_id = Some stored"
    by (auto simp: update_assignment_def split: option.splits)
  from AssignmentRead_Inr(8) [OF update_assignment_Inr(1) [OF s assms]] show ?thesis by simp
qed

end
